theory Spec2Isabelle
  imports Complex_Main "HOL-Library.Word"
begin

text \<open>
  A shallow embedding of the visual-identity helpers of the blog listing page
  (\<^verbatim>\<open>blog/page.tsx\<close> and \<^verbatim>\<open>components/visuals\<close>): the string hash, the choice of an accent
  colour from the fixed palette, the collision-avoiding assignment over a listing, the
  hexadecimal colour arithmetic, and the derivation of initials and headline words.
  Every function is pure except \<^verbatim>\<open>pickAccentColor\<close>, whose set of used colours is passed
  in and returned.
\<close>

unbundle bit_operations_syntax

section \<open>JavaScript strings\<close>

text \<open>
  A JavaScript string is a sequence of UTF-16 code units: \<^verbatim>\<open>length\<close>, \<^verbatim>\<open>charAt\<close>,
  \<^verbatim>\<open>charCodeAt\<close>, \<^verbatim>\<open>split('')\<close> and regular expressions without the \<^verbatim>\<open>u\<close> flag all count
  and read code units. \<open>js\<close> writes a literal of the source; it is applied to ASCII text
  only.
\<close>

type_synonym unit16 = "16 word"
type_synonym jsstring = "unit16 list"

definition js :: "string \<Rightarrow> jsstring" where
  "js s = map (\<lambda>c. of_char c) s"

subsection \<open>The hex-colour pattern\<close>

text \<open>
  \<^verbatim>\<open>hexColorRegex = /^#(?:[0-9a-fA-F]{3}){1,2}$/\<close>. \<open>hexTriple\<close> is one round of the group:
  three characters of the class, with the rest of the input. \<open>hexColorRegex_test\<close> is
  \<^verbatim>\<open>hexColorRegex.test\<close>: a \<^verbatim>\<open>#\<close>, then the group once or twice, then the end of the input
  (without the \<^verbatim>\<open>m\<close> flag \<^verbatim>\<open>$\<close> matches there only).
\<close>

definition isHexDigit :: "unit16 \<Rightarrow> bool" where
  "isHexDigit c \<longleftrightarrow> (0x30 \<le> c \<and> c \<le> 0x39) \<or> (0x61 \<le> c \<and> c \<le> 0x66) \<or> (0x41 \<le> c \<and> c \<le> 0x46)"

fun hexTriple :: "jsstring \<Rightarrow> jsstring option" where
  "hexTriple (a # b # c # rest) =
     (if isHexDigit a \<and> isHexDigit b \<and> isHexDigit c then Some rest else None)"
| "hexTriple _ = None"

definition hexColorRegex_test :: "jsstring \<Rightarrow> bool" where
  "hexColorRegex_test s =
     (case s of
        [] \<Rightarrow> False
      | h # t \<Rightarrow>
          h = 0x23 \<and>
          (case hexTriple t of
             None \<Rightarrow> False
           | Some r1 \<Rightarrow>
               r1 = [] \<or> (case hexTriple r1 of None \<Rightarrow> False | Some r2 \<Rightarrow> r2 = [])))"

subsection \<open>hashString\<close>

text \<open>
  Numbers that hold integers are modelled as \<open>int\<close>. \<open>toInt32\<close> is the conversion every
  bitwise operator applies to its operands (here in \<^verbatim>\<open>hash |= 0\<close>): reduction modulo \<open>2^32\<close>
  into the signed range. \<open>shiftLeft32\<close> is \<^verbatim>\<open><<\<close>: the left operand is converted, shifted
  by the count modulo 32, and the result is again a signed 32-bit value. One round of the
  loop is \<^verbatim>\<open>hash = (hash << 5) - hash + value.charCodeAt(index); hash |= 0\<close>; the subtraction
  and the addition are exact, their operands being far below \<open>2^53\<close>. \<^verbatim>\<open>Math.abs\<close> is taken
  of a number, not of a 32-bit value, so it does not wrap.
\<close>

definition toInt32 :: "int \<Rightarrow> int" where
  "toInt32 x = sint (word_of_int x :: 32 word)"

definition shiftLeft32 :: "int \<Rightarrow> nat \<Rightarrow> int" where
  "shiftLeft32 x n = sint (push_bit (n mod 32) (word_of_int x :: 32 word))"

definition hashStep :: "int \<Rightarrow> unit16 \<Rightarrow> int" where
  "hashStep hash c = toInt32 (shiftLeft32 hash 5 - hash + uint c)"

definition hashString :: "jsstring \<Rightarrow> int" where
  "hashString value = \<bar>foldl hashStep 0 value\<bar>"

subsection \<open>getAccentColor\<close>

text \<open>
  \<open>jsRem\<close> is \<^verbatim>\<open>%\<close> on integers, whose result takes the sign of the dividend. The position
  is an offset counted in palette entries, a natural number. \<^verbatim>\<open>preferred\<close> is a string or
  \<^verbatim>\<open>undefined\<close>; the guard \<^verbatim>\<open>preferred && hexColorRegex.test(preferred)\<close> needs a non-empty
  string that matches. The index read from the palette is always in range (lemma
  \<open>paletteIndex\<close> below).
\<close>

definition accentPalette :: "jsstring list" where
  "accentPalette =
     [js ''#f97316'', js ''#6366f1'', js ''#ec4899'', js ''#10b981'', js ''#facc15'',
      js ''#0ea5e9'', js ''#c084fc'', js ''#fb7185'', js ''#14b8a6'', js ''#fbbf24'']"

definition jsRem :: "int \<Rightarrow> int \<Rightarrow> int" where
  "jsRem a b = sgn a * (\<bar>a\<bar> mod \<bar>b\<bar>)"

definition getAccentColor :: "jsstring option \<Rightarrow> jsstring \<Rightarrow> nat \<Rightarrow> jsstring" where
  "getAccentColor preferred key position =
     (let fromPalette =
            (let hash = hashString key;
                 baseIndex = jsRem hash (int (length accentPalette));
                 paletteIndex = jsRem (baseIndex + int position) (int (length accentPalette))
             in accentPalette ! nat paletteIndex)
      in case preferred of
           None \<Rightarrow> fromPalette
         | Some p \<Rightarrow> if p \<noteq> [] \<and> hexColorRegex_test p then p else fromPalette)"


section \<open>Collision-avoiding assignment\<close>

text \<open>
  Of the front matter only \<^verbatim>\<open>title\<close> and \<^verbatim>\<open>accentColor\<close> are read by the assignment. The
  set \<^verbatim>\<open>usedAccentColors\<close> of the page is threaded through \<open>pickAccentColor\<close>, which returns
  the chosen colour and the updated set. \<open>truthy\<close> is the test \<^verbatim>\<open>if (frontmatter.accentColor)\<close>:
  the field is present and not the empty string. \<open>pickLoop\<close> is the \<^verbatim>\<open>while\<close> loop; it returns
  the final offset together with the colour, so that the number of increments can be
  stated. \<open>pickAll\<close> is the page's sequence of calls, the featured post first and the
  remaining posts in order, all sharing the one set.
\<close>

record BlogFrontmatterMeta =
  title :: jsstring
  accentColor :: "jsstring option"

definition paletteSize :: nat where
  "paletteSize = length accentPalette"

definition truthy :: "jsstring option \<Rightarrow> bool" where
  "truthy v = (case v of None \<Rightarrow> False | Some s \<Rightarrow> s \<noteq> [])"

function pickLoop :: "jsstring set \<Rightarrow> jsstring \<Rightarrow> nat \<Rightarrow> jsstring \<Rightarrow> nat \<times> jsstring" where
  "pickLoop used key offset accent =
     (if accent \<in> used \<and> int offset < int paletteSize - 1
      then pickLoop used key (offset + 1) (getAccentColor None key (offset + 1))
      else (offset, accent))"
  by pat_completeness auto
termination
  by (relation "measure (\<lambda>(used, key, offset, accent). paletteSize - offset)") auto

declare pickLoop.simps [simp del]

definition pickAccentColor ::
  "BlogFrontmatterMeta \<Rightarrow> jsstring set \<Rightarrow> jsstring \<times> jsstring set" where
  "pickAccentColor frontmatter usedAccentColors =
     (let accent = getAccentColor (accentColor frontmatter) (title frontmatter) 0
      in if truthy (accentColor frontmatter)
         then (accent, insert accent usedAccentColors)
         else (let accent' = snd (pickLoop usedAccentColors (title frontmatter) 0 accent)
               in (accent', insert accent' usedAccentColors)))"

fun pickAll :: "BlogFrontmatterMeta list \<Rightarrow> jsstring set \<Rightarrow> jsstring list \<times> jsstring set" where
  "pickAll [] used = ([], used)"
| "pickAll (p # ps) used =
     (case pickAccentColor p used of
        (accent, used') \<Rightarrow> (case pickAll ps used' of (rest, used'') \<Rightarrow> (accent # rest, used'')))"

section \<open>Colour arithmetic\<close>

text \<open>
  A finite number is modelled by the real number it denotes. The channels that \<open>hexToRgb\<close>
  produces are integers, and alpha and the luminance are only compared, clamped and handed
  on, so nothing is rounded there. The interpolation of \<open>mixHexColors\<close> does round: its
  arithmetic is the double-precision arithmetic defined further down, and its weight may
  also be \<^verbatim>\<open>NaN\<close> or infinite. \<^verbatim>\<open>Math.round\<close> is \<open>round\<close>, that is \<open>\<lfloor>x + 1/2\<rfloor>\<close>: halves go
  up.
\<close>

record RGB =
  r :: real
  g :: real
  b :: real

definition clamp :: "'a::linorder \<Rightarrow> 'a \<Rightarrow> 'a \<Rightarrow> 'a" where
  "clamp value lo hi = min (max value lo) hi"

subsection \<open>hexToRgb\<close>

text \<open>
  \<open>parseInt16\<close> is \<^verbatim>\<open>parseInt(s, 16)\<close> on a string that does not begin with white space, a
  sign or the prefix \<^verbatim>\<open>0x\<close>: the value of the longest prefix of hexadecimal digits, and
  \<^verbatim>\<open>NaN\<close> (here \<open>None\<close>) when that prefix is empty. \<open>hexToRgb\<close> calls it only on a string that
  has passed the pattern, which consists of hexadecimal digits. \<open>shiftRight32\<close> and \<open>and32\<close>
  are \<^verbatim>\<open>>>\<close> and \<^verbatim>\<open>&\<close> on the converted operands; a \<^verbatim>\<open>NaN\<close> operand converts to 0.
\<close>

definition hexValue :: "unit16 \<Rightarrow> int" where
  "hexValue c =
     (if 0x30 \<le> c \<and> c \<le> 0x39 then uint c - 0x30
      else if 0x61 \<le> c \<and> c \<le> 0x66 then uint c - 0x57
      else uint c - 0x37)"

definition parseInt16 :: "jsstring \<Rightarrow> int option" where
  "parseInt16 s =
     (let digits = takeWhile isHexDigit s
      in if digits = [] then None
         else Some (foldl (\<lambda>acc d. acc * 16 + hexValue d) 0 digits))"

definition shiftRight32 :: "int \<Rightarrow> nat \<Rightarrow> int" where
  "shiftRight32 x n = drop_bit (n mod 32) (toInt32 x)"

definition and32 :: "int \<Rightarrow> int \<Rightarrow> int" where
  "and32 x y = toInt32 x AND toInt32 y"

definition hexToRgb :: "jsstring \<Rightarrow> RGB option" where
  "hexToRgb hex =
     (if \<not> hexColorRegex_test hex then None
      else
        let sliced = drop 1 hex;
            normalized =
              (if length sliced = 3 then concat (map (\<lambda>ch. [ch, ch]) sliced) else sliced);
            intValue = (case parseInt16 normalized of None \<Rightarrow> 0 | Some v \<Rightarrow> v)
        in Some \<lparr> r = of_int (and32 (shiftRight32 intValue 16) 255),
                  g = of_int (and32 (shiftRight32 intValue 8) 255),
                  b = of_int (and32 intValue 255) \<rparr>)"

subsection \<open>rgbToHex and the functions built on it\<close>

text \<open>
  \<open>toString16\<close> is \<^verbatim>\<open>toString(16)\<close> on an integer: lower-case digits, no leading zero, a
  minus sign for a negative number. The number formatting \<^verbatim>\<open>${...}\<close> of the template
  literal in \<^verbatim>\<open>hexToRgba\<close> is a parameter, \<open>numberToString\<close>. In \<open>toLinear\<close> the power has a
  positive base, so \<^verbatim>\<open>**\<close> is \<open>powr\<close>.
\<close>

definition hexDigitChar :: "nat \<Rightarrow> unit16" where
  "hexDigitChar d = (if d < 10 then of_nat (0x30 + d) else of_nat (0x57 + d))"

fun digits16 :: "nat \<Rightarrow> jsstring" where
  "digits16 n = (if n < 16 then [hexDigitChar n] else digits16 (n div 16) @ [hexDigitChar (n mod 16)])"

declare digits16.simps [simp del]

definition toString16 :: "int \<Rightarrow> jsstring" where
  "toString16 n = (if n < 0 then 0x2D # digits16 (nat (- n)) else digits16 (nat n))"

definition componentToHex :: "real \<Rightarrow> jsstring" where
  "componentToHex component =
     (let clamped = clamp (round component) 0 255;
          hex = toString16 clamped
      in if length hex = 1 then 0x30 # hex else hex)"

definition rgbToHex :: "RGB \<Rightarrow> jsstring" where
  "rgbToHex rgb = 0x23 # componentToHex (r rgb) @ componentToHex (g rgb) @ componentToHex (b rgb)"

subsection \<open>Double-precision arithmetic\<close>

text \<open>
  The operators \<^verbatim>\<open>+\<close>, \<^verbatim>\<open>-\<close> and \<^verbatim>\<open>*\<close> of the source work on IEEE 754 double-precision
  numbers: the exact result is rounded to the nearest double, a tie going to the double with
  an even significand. \<open>binade x\<close> is the exponent of a positive \<open>x\<close>, that is
  \<open>\<lfloor>log 2 x\<rfloor>\<close> (lemma \<open>binade_bracket\<close> below), found by halving and doubling. \<open>ulpAt e\<close> is
  the spacing \<open>2^(e - 52)\<close> of the doubles with exponent \<open>e\<close>; below the exponent -1022 the
  spacing stays that of -1022 (gradual underflow). \<open>toDouble\<close> rounds a real number to a
  double with these rules. Overflow to infinity is left out: the operands of the
  arithmetic modelled here are channels between 0 and 255 and a ratio between 0 and 1.
\<close>

function binade :: "real \<Rightarrow> int" where
  "binade x =
     (if x \<le> 0 then 0
      else if 2 \<le> x then binade (x / 2) + 1
      else if x < 1 then binade (2 * x) - 1
      else 0)"
  by pat_completeness auto
termination
proof (relation "measure (\<lambda>x. nat \<bar>\<lfloor>log 2 x\<rfloor>\<bar>)")
  show "wf (measure (\<lambda>x. nat \<bar>\<lfloor>log 2 x\<rfloor>\<bar>))"
    by simp
next
  fix x :: real
  assume "\<not> x \<le> 0" and big: "2 \<le> x"
  then have "log 2 (x / 2) = log 2 x - 1"
    by (simp add: log_divide)
  then have halved: "\<lfloor>log 2 (x / 2)\<rfloor> = \<lfloor>log 2 x\<rfloor> - 1"
    by simp
  have "1 \<le> log 2 x"
    using big by (simp add: le_log_iff)
  then have "1 \<le> \<lfloor>log 2 x\<rfloor>"
    by (simp add: le_floor_iff)
  then have "nat \<bar>\<lfloor>log 2 x\<rfloor> - 1\<bar> < nat \<bar>\<lfloor>log 2 x\<rfloor>\<bar>"
    by linarith
  then show "(x / 2, x) \<in> measure (\<lambda>x. nat \<bar>\<lfloor>log 2 x\<rfloor>\<bar>)"
    by (simp only: in_measure halved)
next
  fix x :: real
  assume pos: "\<not> x \<le> 0" and "\<not> 2 \<le> x" and small: "x < 1"
  then have "log 2 (2 * x) = log 2 x + 1"
    by (simp add: log_mult)
  then have doubled: "\<lfloor>log 2 (2 * x)\<rfloor> = \<lfloor>log 2 x\<rfloor> + 1"
    by simp
  have "log 2 x < 0"
    using pos small by simp
  then have "\<lfloor>log 2 x\<rfloor> < 0"
    by (simp add: floor_less_iff)
  then have "nat \<bar>\<lfloor>log 2 x\<rfloor> + 1\<bar> < nat \<bar>\<lfloor>log 2 x\<rfloor>\<bar>"
    by linarith
  then show "(2 * x, x) \<in> measure (\<lambda>x. nat \<bar>\<lfloor>log 2 x\<rfloor>\<bar>)"
    by (simp only: in_measure doubled)
qed

declare binade.simps [simp del]

definition roundTiesToEven :: "real \<Rightarrow> int" where
  "roundTiesToEven y =
     (let f = \<lfloor>y\<rfloor>
      in if y - of_int f < 1 / 2 then f
         else if 1 / 2 < y - of_int f then f + 1
         else if even f then f else f + 1)"

definition ulpAt :: "int \<Rightarrow> real" where
  "ulpAt e = (if 52 \<le> e then 2 ^ nat (e - 52) else 1 / 2 ^ nat (52 - e))"

definition toDouble :: "real \<Rightarrow> real" where
  "toDouble x =
     (if x = 0 then 0
      else let ulp = ulpAt (max (binade \<bar>x\<bar>) (- 1022))
           in of_int (roundTiesToEven (x / ulp)) * ulp)"

definition doubleSub :: "real \<Rightarrow> real \<Rightarrow> real" where
  "doubleSub x y = toDouble (x - y)"

definition doubleMul :: "real \<Rightarrow> real \<Rightarrow> real" where
  "doubleMul x y = toDouble (x * y)"

definition doubleAdd :: "real \<Rightarrow> real \<Rightarrow> real" where
  "doubleAdd x y = toDouble (x + y)"

text \<open>
  A number of the source is \<^verbatim>\<open>NaN\<close>, an infinity, or finite. \<open>numberLiteral\<close> is the number
  a decimal literal of the source denotes: the double nearest to it. \<open>clampNumber\<close> is
  \<^verbatim>\<open>clamp\<close> on such a number and finite bounds: \<^verbatim>\<open>Math.max\<close> and \<^verbatim>\<open>Math.min\<close> return
  \<^verbatim>\<open>NaN\<close> (here \<open>None\<close>) when an argument is \<^verbatim>\<open>NaN\<close>, and an infinite value is cut to a
  bound. \<open>nanComponent\<close> is \<^verbatim>\<open>componentToHex(NaN)\<close>: \<^verbatim>\<open>Math.round\<close> and \<^verbatim>\<open>clamp\<close> keep the
  \<^verbatim>\<open>NaN\<close>, and \<^verbatim>\<open>toString(16)\<close> prints it as the three letters \<^verbatim>\<open>NaN\<close>, which are not
  one character, so no zero is put in front.
\<close>

datatype jsNumber = NaN | PosInfinity | NegInfinity | Finite real

definition numberLiteral :: "real \<Rightarrow> jsNumber" where
  "numberLiteral x = Finite (toDouble x)"

definition clampNumber :: "jsNumber \<Rightarrow> real \<Rightarrow> real \<Rightarrow> real option" where
  "clampNumber value lo hi =
     (case value of
        NaN \<Rightarrow> None
      | PosInfinity \<Rightarrow> Some hi
      | NegInfinity \<Rightarrow> Some (min lo hi)
      | Finite x \<Rightarrow> Some (min (max x lo) hi))"

definition nanComponent :: jsstring where
  "nanComponent = js ''NaN''"

text \<open>
  In \<open>mixHexColors\<close> a \<^verbatim>\<open>NaN\<close> ratio makes every channel \<^verbatim>\<open>NaN\<close>, whatever the colours
  are. Otherwise each channel is \<^verbatim>\<open>rgbBase.c * (1 - ratio) + rgbMix.c * ratio\<close> with every
  one of the four operations rounded.
\<close>

definition mixHexColors :: "jsstring \<Rightarrow> jsstring \<Rightarrow> jsNumber \<Rightarrow> jsstring" where
  "mixHexColors color mixWith weight =
     (let ratio = clampNumber weight 0 1
      in case (hexToRgb color, hexToRgb mixWith) of
           (Some rgbBase, Some rgbMix) \<Rightarrow>
             (case ratio of
                None \<Rightarrow> 0x23 # nanComponent @ nanComponent @ nanComponent
              | Some t \<Rightarrow>
                  rgbToHex
                    \<lparr> r = doubleAdd (doubleMul (r rgbBase) (doubleSub 1 t)) (doubleMul (r rgbMix) t),
                       g = doubleAdd (doubleMul (g rgbBase) (doubleSub 1 t)) (doubleMul (g rgbMix) t),
                       b = doubleAdd (doubleMul (b rgbBase) (doubleSub 1 t)) (doubleMul (b rgbMix) t) \<rparr>)
         | _ \<Rightarrow> color)"

definition hexToRgba :: "(real \<Rightarrow> jsstring) \<Rightarrow> jsstring \<Rightarrow> real \<Rightarrow> jsstring" where
  "hexToRgba numberToString color alpha =
     (case hexToRgb color of
        None \<Rightarrow> color
      | Some rgb \<Rightarrow>
          (let clampedAlpha = clamp alpha 0 1
           in js ''rgba('' @ numberToString (r rgb) @ js '', '' @ numberToString (g rgb) @ js '', ''
                @ numberToString (b rgb) @ js '', '' @ numberToString clampedAlpha @ js '')''))"

definition toLinear :: "real \<Rightarrow> real" where
  "toLinear channel =
     (let normalized = channel / 255
      in if normalized \<le> 0.03928 then normalized / 12.92
         else ((normalized + 0.055) / 1.055) powr 2.4)"

definition getLuminance :: "jsstring \<Rightarrow> real" where
  "getLuminance hex =
     (case hexToRgb hex of
        None \<Rightarrow> 0.5
      | Some rgb \<Rightarrow> 0.2126 * toLinear (r rgb) + 0.7152 * toLinear (g rgb) + 0.0722 * toLinear (b rgb))"

definition getReadableTextColor :: "jsstring \<Rightarrow> jsstring" where
  "getReadableTextColor background =
     (if getLuminance background > 0.5 then js ''#0f172a'' else js ''#f8fafc'')"


section \<open>Text derivation\<close>

text \<open>
  \<open>isWhiteSpace\<close> is the set of code units that \<^verbatim>\<open>trim\<close> strips and the class \<^verbatim>\<open>\s\<close>
  matches (white space and line terminators; both use the same set). \<open>splitEach\<close> is
  \<^verbatim>\<open>split\<close> at a one-character class, \<open>splitRuns\<close> is \<^verbatim>\<open>split\<close> at a class with \<^verbatim>\<open>+\<close>, which
  takes a maximal run of separators at once; both give one piece more than there are
  separators, empty pieces included. \<open>charAt\<close> gives the empty string out of range.
\<close>

definition isWhiteSpace :: "unit16 \<Rightarrow> bool" where
  "isWhiteSpace c \<longleftrightarrow>
     (0x09 \<le> c \<and> c \<le> 0x0D) \<or> c = 0x20 \<or> c = 0xA0 \<or> c = 0x1680 \<or>
     (0x2000 \<le> c \<and> c \<le> 0x200A) \<or> c = 0x2028 \<or> c = 0x2029 \<or> c = 0x202F \<or>
     c = 0x205F \<or> c = 0x3000 \<or> c = 0xFEFF"

definition trim :: "jsstring \<Rightarrow> jsstring" where
  "trim s = rev (dropWhile isWhiteSpace (rev (dropWhile isWhiteSpace s)))"

fun splitEach :: "(unit16 \<Rightarrow> bool) \<Rightarrow> jsstring \<Rightarrow> jsstring list" where
  "splitEach sep [] = [[]]"
| "splitEach sep (c # cs) =
     (if sep c then [] # splitEach sep cs
      else (case splitEach sep cs of [] \<Rightarrow> [[c]] | w # ws \<Rightarrow> (c # w) # ws))"

function splitRuns :: "(unit16 \<Rightarrow> bool) \<Rightarrow> jsstring \<Rightarrow> jsstring list" where
  "splitRuns sep [] = [[]]"
| "splitRuns sep (c # cs) =
     (if sep c then [] # splitRuns sep (dropWhile sep cs)
      else (case splitRuns sep cs of [] \<Rightarrow> [[c]] | w # ws \<Rightarrow> (c # w) # ws))"
  by pat_completeness auto
termination
  by (relation "measure (\<lambda>(sep, s). length s)")
     (auto simp: length_dropWhile_le less_Suc_eq_le)

definition charAt :: "jsstring \<Rightarrow> nat \<Rightarrow> jsstring" where
  "charAt s i = (if i < length s then [s ! i] else [])"

text \<open>
  \<^verbatim>\<open>toUpperCase\<close> is a parameter of \<open>getInitials\<close>. After a non-empty trimmed input there
  is always a first word, and a second one when the count is not one (lemmas \<open>getInitials_one\<close>
  and \<open>getInitials_many\<close> below cover these cases), so the reads \<^verbatim>\<open>words[0]\<close> and
  \<^verbatim>\<open>words[1]\<close> are in range.
\<close>

definition getInitials :: "(jsstring \<Rightarrow> jsstring) \<Rightarrow> jsstring \<Rightarrow> jsstring" where
  "getInitials toUpperCase value =
     (let trimmed = trim value
      in if trimmed = [] then js ''TEN''
         else
           let words = filter (\<lambda>w. w \<noteq> []) (splitRuns isWhiteSpace trimmed)
           in if length words = 1
              then (let firstWord = words ! 0;
                        first = charAt firstWord 0;
                        second = (if charAt firstWord 1 \<noteq> [] then charAt firstWord 1
                                  else charAt firstWord 0)
                    in toUpperCase (first @ second))
              else toUpperCase (charAt (words ! 0) 0 @ charAt (words ! 1) 0))"

text \<open>
  \<open>toUpperCaseLatin1\<close> is \<^verbatim>\<open>String.prototype.toUpperCase\<close> on strings whose code units are
  all below U+0100, after the Unicode case mapping: the letters \<^verbatim>\<open>a\<close> to \<^verbatim>\<open>z\<close> and U+00E0 to
  U+00FE (the division sign U+00F7 apart) move down by 32, the micro sign becomes the Greek
  capital mu U+039C, the y with diaeresis becomes U+0178, and the sharp s U+00DF becomes the
  two letters \<^verbatim>\<open>SS\<close>. It is used on such strings only.
\<close>

definition upperLatin1 :: "unit16 \<Rightarrow> jsstring" where
  "upperLatin1 c =
     (if 0x61 \<le> c \<and> c \<le> 0x7A then [c - 0x20]
      else if c = 0xB5 then [0x39C]
      else if c = 0xDF then [0x53, 0x53]
      else if 0xE0 \<le> c \<and> c \<le> 0xFE \<and> c \<noteq> 0xF7 then [c - 0x20]
      else if c = 0xFF then [0x178]
      else [c])"

definition toUpperCaseLatin1 :: "jsstring \<Rightarrow> jsstring" where
  "toUpperCaseLatin1 s = concat (map upperLatin1 s)"

text \<open>
  The override is a string, an array of strings, or absent. \<^verbatim>\<open>!override\<close> holds for the
  absent value and for the empty string; an empty array is not falsy.
\<close>

datatype accentOverride = Single jsstring | Many "jsstring list"

definition isOverrideSeparator :: "unit16 \<Rightarrow> bool" where
  "isOverrideSeparator c \<longleftrightarrow> c = 0x7C \<or> c = 0x2C \<or> c = 0x0A"

definition isDash :: "unit16 \<Rightarrow> bool" where
  "isDash c \<longleftrightarrow> c = 0x2D \<or> c = 0x2013 \<or> c = 0x2014"

definition parseAccentWords :: "accentOverride option \<Rightarrow> jsstring list" where
  "parseAccentWords override =
     (case override of
        None \<Rightarrow> []
      | Some (Single []) \<Rightarrow> []
      | Some ov \<Rightarrow>
          (let toWords = (case ov of Many xs \<Rightarrow> xs | Single str \<Rightarrow> splitRuns isOverrideSeparator str)
           in filter (\<lambda>item. length item > 0) (map trim toWords)))"

definition getPrimaryWords :: "jsstring \<Rightarrow> accentOverride option \<Rightarrow> jsstring list" where
  "getPrimaryWords value override =
     (let parsedOverride = parseAccentWords override
      in if length parsedOverride > 0
         then (let primary = parsedOverride ! 0;
                   secondary = (if 1 < length parsedOverride then parsedOverride ! 1 else [])
               in [primary, secondary])
         else
           let trimmed = trim value
           in if trimmed = [] then [js ''TEN'', js ''Blog'']
              else
                let words = filter (\<lambda>w. w \<noteq> []) (splitRuns isWhiteSpace trimmed)
                in if length words = 1
                   then (let single = words ! 0;
                             parts = filter (\<lambda>w. w \<noteq> []) (splitEach isDash single)
                         in if length parts \<ge> 2 then [parts ! 0, parts ! 1] else [single, []])
                   else [words ! 0, words ! 1])"




section \<open>The specification's reading of the hash\<close>

text \<open>
  The specification folds over the code point of each character. \<open>codePoints\<close> reads a
  string as its iterator does: a high surrogate followed by a low surrogate is one code
  point above U+FFFF, every other unit is a code point by itself. \<open>specHashString\<close> follows
  the specification's words on that sequence. \<open>hasSurrogatePair\<close> holds of a string in which
  some high surrogate is immediately followed by a low surrogate.
\<close>

definition isHighSurrogate :: "unit16 \<Rightarrow> bool" where
  "isHighSurrogate c \<longleftrightarrow> 0xD800 \<le> c \<and> c \<le> 0xDBFF"

definition isLowSurrogate :: "unit16 \<Rightarrow> bool" where
  "isLowSurrogate c \<longleftrightarrow> 0xDC00 \<le> c \<and> c \<le> 0xDFFF"

fun codePoints :: "jsstring \<Rightarrow> int list" where
  "codePoints (hi # lo # rest) =
     (if isHighSurrogate hi \<and> isLowSurrogate lo
      then (0x10000 + (uint hi - 0xD800) * 0x400 + (uint lo - 0xDC00)) # codePoints rest
      else uint hi # codePoints (lo # rest))"
| "codePoints [c] = [uint c]"
| "codePoints [] = []"

fun hasSurrogatePair :: "jsstring \<Rightarrow> bool" where
  "hasSurrogatePair (hi # lo # rest) =
     ((isHighSurrogate hi \<and> isLowSurrogate lo) \<or> hasSurrogatePair (lo # rest))"
| "hasSurrogatePair _ = False"

definition specHashString :: "jsstring \<Rightarrow> int" where
  "specHashString s = \<bar>foldl (\<lambda>hash codePoint. toInt32 (hash * 31 + codePoint)) 0 (codePoints s)\<bar>"

section \<open>The specification's reading of a colour channel\<close>

text \<open>
  The specification's words for one channel: round to the nearest integer, clamp to the range
  0 to 255, write two lower-case hexadecimal digits. \<open>specMixHexColors\<close> is the
  interpolation in the specification's words, \<open>a * (1 - t) + b * t\<close> with \<open>t\<close> the weight
  clamped to the interval from 0 to 1, taken as a formula over the real numbers.
\<close>

definition lowerHexDigits :: jsstring where
  "lowerHexDigits = js ''0123456789abcdef''"

definition specChannelHex :: "real \<Rightarrow> jsstring" where
  "specChannelHex channel =
     (let n = nat (min 255 (max 0 (round channel)))
      in [lowerHexDigits ! (n div 16), lowerHexDigits ! (n mod 16)])"

definition specMixHexColors :: "jsstring \<Rightarrow> jsstring \<Rightarrow> real \<Rightarrow> jsstring" where
  "specMixHexColors color mixWith weight =
     (case (hexToRgb color, hexToRgb mixWith) of
        (Some a, Some m) \<Rightarrow>
          (let t = min 1 (max 0 weight)
           in 0x23 # specChannelHex (r a * (1 - t) + r m * t)
                @ specChannelHex (g a * (1 - t) + g m * t)
                @ specChannelHex (b a * (1 - t) + b m * t))
      | _ \<Rightarrow> color)"

section \<open>The specification's reading of relative luminance\<close>

text \<open>
  The relative luminance of the specification: each channel scaled to the unit interval,
  linear below 0.03928 and a power law above, then the weighted sum.
\<close>

definition wcagLinear :: "real \<Rightarrow> real" where
  "wcagLinear c = (if c \<le> 0.03928 then c / 12.92 else ((c + 0.055) / 1.055) powr 2.4)"

definition wcagLuminance :: "RGB \<Rightarrow> real" where
  "wcagLuminance rgb =
     0.2126 * wcagLinear (r rgb / 255) + 0.7152 * wcagLinear (g rgb / 255)
       + 0.0722 * wcagLinear (b rgb / 255)"

section \<open>Vocabulary for the text claims\<close>

text \<open>
  \<open>wordsOf\<close> names the expression \<^verbatim>\<open>trimmed.split(/\s+/).filter(Boolean)\<close> that both
  \<open>getInitials\<close> and \<open>getPrimaryWords\<close> compute, and \<open>dashParts\<close> the expression
  \<^verbatim>\<open>single.split(/[-...]/).filter(Boolean)\<close> with the hyphen, the en dash and the em dash
  in the class.
\<close>

definition wordsOf :: "jsstring \<Rightarrow> jsstring list" where
  "wordsOf v = filter (\<lambda>w. w \<noteq> []) (splitRuns isWhiteSpace (trim v))"

definition dashParts :: "jsstring \<Rightarrow> jsstring list" where
  "dashParts w = filter (\<lambda>p. p \<noteq> []) (splitEach isDash w)"

section \<open>Palette selection\<close>

lemma hexTriple_Some:
  "hexTriple t = Some rest \<longleftrightarrow>
     (\<exists>x y z. t = x # y # z # rest \<and> isHexDigit x \<and> isHexDigit y \<and> isHexDigit z)"
  by (cases t rule: hexTriple.cases) auto

lemma length3: "length ds = 3 \<longleftrightarrow> (\<exists>x y z. ds = [x, y, z])"
  by (auto simp: numeral_3_eq_3 length_Suc_conv)

lemma length6: "length ds = 6 \<longleftrightarrow> (\<exists>x y z u v w. ds = [x, y, z, u, v, w])"
  by (auto simp: eval_nat_numeral length_Suc_conv)

lemma hexColorRegex_test_iff:
  "hexColorRegex_test s \<longleftrightarrow>
     (\<exists>ds. s = 0x23 # ds \<and> (length ds = 3 \<or> length ds = 6) \<and> list_all isHexDigit ds)"
  apply (cases s)
   apply (simp add: hexColorRegex_test_def)
  apply (simp add: hexColorRegex_test_def length3 length6 split: option.split)
  apply (auto simp: hexTriple_Some)
  done

lemma hashString_nonneg: "0 \<le> hashString k"
  by (simp add: hashString_def)

lemma length_accentPalette: "length accentPalette = 10"
  by (simp add: accentPalette_def)

lemma jsRem_nonneg: "0 \<le> a \<Longrightarrow> 0 < n \<Longrightarrow> jsRem a n = a mod n"
  by (cases "a = 0") (simp_all add: jsRem_def)

lemma paletteIndex:
  "nat (jsRem (jsRem (hashString k) (int (length accentPalette)) + int off) (int (length accentPalette)))
     = (nat (hashString k) mod 10 + off) mod 10"
proof -
  obtain n where n: "hashString k = int n"
    using hashString_nonneg [of k] nonneg_int_cases by blast
  have "jsRem (int n) 10 = int (n mod 10)"
    by (simp add: jsRem_nonneg zmod_int)
  moreover have "jsRem (int (n mod 10) + int off) 10 = int ((n mod 10 + off) mod 10)"
    by (simp add: jsRem_nonneg zmod_int)
  ultimately show ?thesis
    by (simp add: n length_accentPalette)
qed

lemma palette_member: "i < 10 \<Longrightarrow> accentPalette ! i \<in> set accentPalette"
  by (simp add: length_accentPalette)

lemma getAccentColor_None:
  "getAccentColor None k off = accentPalette ! ((nat (hashString k) mod 10 + off) mod 10)"
  by (simp add: getAccentColor_def Let_def paletteIndex)

lemma getAccentColor_None_member: "getAccentColor None k off \<in> set accentPalette"
  by (simp add: getAccentColor_None palette_member)

lemma hexColorRegex_test_nonempty: "hexColorRegex_test p \<Longrightarrow> p \<noteq> []"
  by (auto simp: hexColorRegex_test_def)

text \<open>
  Claim C1. A preferred string that matches the hex pattern (a \<open>#\<close> followed by exactly three
  or exactly six hexadecimal digits of either case) is returned unchanged, whatever the key and
  the offset are. Any other preferred string yields the palette entry at index
  \<open>(hashString key mod paletteSize + offset) mod paletteSize\<close>, which is one of the ten
  palette colours; an absent preferred value yields the same entry.
\<close>

theorem getAccentColor_contract:
  "(hexColorRegex_test p \<longrightarrow> getAccentColor (Some p) k off = p) \<and>
   (\<not> hexColorRegex_test p \<longrightarrow>
      getAccentColor (Some p) k off = accentPalette ! ((nat (hashString k) mod paletteSize + off) mod paletteSize) \<and>
      getAccentColor (Some p) k off \<in> set accentPalette) \<and>
   (hexColorRegex_test p \<longleftrightarrow>
      (\<exists>ds. p = 0x23 # ds \<and> (length ds = 3 \<or> length ds = 6) \<and> list_all isHexDigit ds)) \<and>
   getAccentColor None k off = accentPalette ! ((nat (hashString k) mod paletteSize + off) mod paletteSize) \<and>
   paletteSize = 10"
proof -
  have size: "paletteSize = 10"
    by (simp add: paletteSize_def length_accentPalette)
  have hit: "getAccentColor (Some p) k off = p" if "hexColorRegex_test p"
    using that hexColorRegex_test_nonempty [OF that] by (simp add: getAccentColor_def)
  have miss: "getAccentColor (Some p) k off = getAccentColor None k off" if "\<not> hexColorRegex_test p"
    using that by (simp add: getAccentColor_def)
  show ?thesis
    using hit miss hexColorRegex_test_iff [of p] getAccentColor_None [of k off]
      getAccentColor_None_member [of k off] size
    by auto
qed

lemma hash_hello: "hashString (js ''hello'') = 99162322"
  by (simp add: js_def hashString_def hashStep_def toInt32_def shiftLeft32_def)

text \<open>
  The contract at two concrete calls: an upper- and lower-case three-digit colour is passed
  through, and the word \<open>teal\<close> falls back to the palette.
\<close>

theorem getAccentColor_contract_witness:
  "hexColorRegex_test (js ''#AbC'') \<and>
   getAccentColor (Some (js ''#AbC'')) (js ''hello'') 4 = js ''#AbC'' \<and>
   \<not> hexColorRegex_test (js ''teal'') \<and>
   getAccentColor (Some (js ''teal'')) (js ''hello'') 9 = js ''#6366f1'' \<and>
   js ''#6366f1'' \<in> set accentPalette"
proof -
  have yes: "hexColorRegex_test (js ''#AbC'')"
    by (simp add: js_def hexColorRegex_test_def isHexDigit_def)
  have no: "\<not> hexColorRegex_test (js ''teal'')"
    by (simp add: js_def hexColorRegex_test_def)
  have idx: "accentPalette ! ((nat (hashString (js ''hello'')) mod 10 + 9) mod 10) = js ''#6366f1''"
    by (simp add: hash_hello accentPalette_def)
  from getAccentColor_contract [of "js ''#AbC''" "js ''hello''" 4] yes
  have one: "getAccentColor (Some (js ''#AbC'')) (js ''hello'') 4 = js ''#AbC''"
    by blast
  from getAccentColor_contract [of "js ''teal''" "js ''hello''" 9] no
  have raw: "getAccentColor (Some (js ''teal'')) (js ''hello'') 9 =
               accentPalette ! ((nat (hashString (js ''hello'')) mod paletteSize + 9) mod paletteSize)"
    and mem: "getAccentColor (Some (js ''teal'')) (js ''hello'') 9 \<in> set accentPalette"
    and size: "paletteSize = 10"
    by blast+
  have two: "getAccentColor (Some (js ''teal'')) (js ''hello'') 9 = js ''#6366f1''"
    using raw idx by (simp only: size)
  have three: "js ''#6366f1'' \<in> set accentPalette"
    using mem by (simp only: two)
  show ?thesis
    using yes no one two three by blast
qed

section \<open>The string hash\<close>

lemma hashStep_eq: "hashStep h c = toInt32 (h * 31 + uint c)"
  by (simp add: hashStep_def toInt32_def shiftLeft32_def push_bit_eq_mult mult.commute)

lemma foldl_hashStep: "foldl hashStep h s = foldl (\<lambda>hash c. toInt32 (hash * 31 + uint c)) h s"
  by (induction s arbitrary: h) (simp_all add: hashStep_eq)

lemma codePoints_no_pair: "\<not> hasSurrogatePair s \<Longrightarrow> codePoints s = map uint s"
  by (induction s rule: codePoints.induct) auto

lemma foldl_map_uint:
  "foldl (\<lambda>hash codePoint. toInt32 (hash * 31 + codePoint)) h (map uint s)
     = foldl (\<lambda>hash c. toInt32 (hash * 31 + uint c)) h s"
  by (induction s arbitrary: h) simp_all

text \<open>
  The claim as stated speaks of the code point of each character. \<open>charCodeAt\<close> reads UTF-16
  code units, so a character outside the Basic Multilingual Plane contributes its two
  surrogates, one after the other. For the single character U+1F600 the function returns
  1772899, while folding over its code point gives 128512.
\<close>

theorem hashString_code_points_counterexample:
  "hashString [0xD83D, 0xDE00] = 1772899 \<and> specHashString [0xD83D, 0xDE00] = 128512 \<and>
   hashString [0xD83D, 0xDE00] \<noteq> specHashString [0xD83D, 0xDE00]"
  by (simp add: hashString_def hashStep_def toInt32_def shiftLeft32_def specHashString_def
      isHighSurrogate_def isLowSurrogate_def)

text \<open>
  Claim C2, amended. \<open>hashString\<close> is the absolute value of the fold
  \<open>hash := hash * 31 + unit\<close> over the UTF-16 code units of the string, starting from 0, each
  step wrapped to a signed 32-bit integer. The result is never negative. On a string without
  a surrogate pair, that is with no high surrogate immediately followed by a low one, every
  code unit is a code point, and the function agrees with the fold over code points. As a
  function of its argument alone the hash is the same at every call.
\<close>

theorem hashString_fold:
  "hashString s = \<bar>foldl (\<lambda>hash c. toInt32 (hash * 31 + uint c)) 0 s\<bar> \<and>
   0 \<le> hashString s \<and>
   (\<not> hasSurrogatePair s \<longrightarrow> hashString s = specHashString s)"
  by (simp add: hashString_def specHashString_def foldl_hashStep codePoints_no_pair foldl_map_uint)

text \<open>
  Two strings without a pair: a high surrogate followed by the letter \<open>A\<close>, and an ASCII
  word.
\<close>

theorem hashString_fold_witness:
  "\<not> hasSurrogatePair [0xD83D, 0x41] \<and>
   hashString [0xD83D, 0x41] = specHashString [0xD83D, 0x41] \<and>
   hashString [0xD83D, 0x41] = 1716132 \<and>
   \<not> hasSurrogatePair (js ''hello'') \<and>
   hashString (js ''hello'') = specHashString (js ''hello'') \<and>
   hashString (js ''hello'') = 99162322"
proof -
  have lone: "\<not> hasSurrogatePair [0xD83D, 0x41]"
    by (simp add: isHighSurrogate_def isLowSurrogate_def)
  have bmp: "\<not> hasSurrogatePair (js ''hello'')"
    by (simp add: js_def isHighSurrogate_def)
  have v: "hashString [0xD83D, 0x41] = 1716132"
    by (simp add: hashString_def hashStep_def toInt32_def shiftLeft32_def)
  have e1: "hashString [0xD83D, 0x41] = specHashString [0xD83D, 0x41]"
    using hashString_fold [of "[0xD83D, 0x41]"] lone by blast
  have e2: "hashString (js ''hello'') = specHashString (js ''hello'')"
    using hashString_fold [of "js ''hello''"] bmp by blast
  show ?thesis
    by (intro conjI lone e1 v bmp e2 hash_hello)
qed

section \<open>Collision avoidance over a listing\<close>

lemma paletteSize_eq: "paletteSize = 10"
  by (simp add: paletteSize_def length_accentPalette)

lemma getAccentColor_falsy:
  "\<not> truthy pref \<Longrightarrow> getAccentColor pref k off = getAccentColor None k off"
  by (auto simp: truthy_def getAccentColor_def split: option.splits)

lemma pickLoop_probe:
  "off \<le> paletteSize - 1 \<Longrightarrow> accent = getAccentColor None k off \<Longrightarrow>
   pickLoop used k off accent = (n, a) \<Longrightarrow>
     off \<le> n \<and> n \<le> paletteSize - 1 \<and> a = getAccentColor None k n \<and>
     (\<forall>j. off \<le> j \<and> j < n \<longrightarrow> getAccentColor None k j \<in> used) \<and>
     (n < paletteSize - 1 \<longrightarrow> a \<notin> used)"
proof (induction used k off accent arbitrary: n a rule: pickLoop.induct)
  case (1 used k off accent)
  show ?case
  proof (cases "accent \<in> used \<and> int off < int paletteSize - 1")
    case True
    then have step: "pickLoop used k (off + 1) (getAccentColor None k (off + 1)) = (n, a)"
      using "1.prems"(3) by (simp add: pickLoop.simps [of used k off accent])
    have le: "off + 1 \<le> paletteSize - 1"
      using True by linarith
    from "1.IH" [OF True le refl step]
    have ih: "off + 1 \<le> n" "n \<le> paletteSize - 1" "a = getAccentColor None k n"
      "\<forall>j. off + 1 \<le> j \<and> j < n \<longrightarrow> getAccentColor None k j \<in> used"
      "n < paletteSize - 1 \<longrightarrow> a \<notin> used"
      by blast+
    have "getAccentColor None k j \<in> used" if "off \<le> j" "j < n" for j
    proof (cases "j = off")
      case True
      then show ?thesis using \<open>accent \<in> used \<and> int off < int paletteSize - 1\<close> "1.prems"(2) by simp
    next
      case False
      then show ?thesis using that ih(4) by simp
    qed
    then show ?thesis using ih by auto
  next
    case False
    then have "n = off" "a = accent"
      using "1.prems"(3) by (auto simp: pickLoop.simps [of used k off accent])
    then show ?thesis
      using False "1.prems"(1,2) by auto
  qed
qed

lemma pickAccentColor_falsy:
  assumes "\<not> truthy (accentColor fm)"
  shows "pickAccentColor fm used =
           (snd (pickLoop used (title fm) 0 (getAccentColor None (title fm) 0)),
            insert (snd (pickLoop used (title fm) 0 (getAccentColor None (title fm) 0))) used)"
  using assms by (simp add: pickAccentColor_def Let_def getAccentColor_falsy)

lemma pickAccentColor_falsy_member:
  assumes "\<not> truthy (accentColor fm)"
  shows "fst (pickAccentColor fm used) \<in> set accentPalette"
proof -
  obtain n a where na: "pickLoop used (title fm) 0 (getAccentColor None (title fm) 0) = (n, a)"
    by (cases "pickLoop used (title fm) 0 (getAccentColor None (title fm) 0)")
  have zero: "0 \<le> paletteSize - 1"
    by simp
  from pickLoop_probe [OF zero refl na] have "a = getAccentColor None (title fm) n"
    by blast
  then show ?thesis
    by (simp add: pickAccentColor_falsy [OF assms] na getAccentColor_None_member)
qed

lemma pickAll_length: "length (fst (pickAll items used)) = length items"
proof (induction items arbitrary: used)
  case Nil
  then show ?case by simp
next
  case (Cons p ps)
  obtain accent used' where pick: "pickAccentColor p used = (accent, used')"
    by (cases "pickAccentColor p used")
  show ?case
    using Cons.IH [of used'] by (auto simp: pick split: prod.splits)
qed

lemma pickAll_members:
  "\<forall>fm \<in> set items. \<not> truthy (accentColor fm) \<Longrightarrow>
   set (fst (pickAll items used)) \<subseteq> set accentPalette"
proof (induction items arbitrary: used)
  case Nil
  then show ?case by simp
next
  case (Cons p ps)
  obtain accent used' where pick: "pickAccentColor p used = (accent, used')"
    by (cases "pickAccentColor p used")
  have "accent \<in> set accentPalette"
    using pickAccentColor_falsy_member [of p used] Cons.prems pick by simp
  moreover have "set (fst (pickAll ps used')) \<subseteq> set accentPalette"
    using Cons.IH Cons.prems by simp
  ultimately show ?case
    by (auto simp: pick split: prod.splits)
qed

text \<open>
  Claim C3. For an item without an explicit accent colour the probing loop stops at an offset
  \<open>n\<close> of at most \<open>paletteSize - 1\<close>, so it makes at most \<open>paletteSize - 1\<close> increments. The
  colour returned is the palette entry probed at offset \<open>n\<close>; every earlier probe was found
  in the used set, and when the loop stops before the last offset the colour is a fresh one.
  The returned colour is a member of the palette and is added to the used set. Hence every
  item of a sequence of items without explicit colours, of any length, is given a palette
  colour; with eleven items the last one repeats a colour.
\<close>

theorem pickAccentColor_probing:
  "(\<not> truthy (accentColor fm) \<longrightarrow>
      (\<exists>n. pickLoop used (title fm) 0 (getAccentColor (accentColor fm) (title fm) 0)
              = (n, fst (pickAccentColor fm used)) \<and>
           n \<le> paletteSize - 1 \<and>
           fst (pickAccentColor fm used) = getAccentColor None (title fm) n \<and>
           (\<forall>j < n. getAccentColor None (title fm) j \<in> used) \<and>
           (n < paletteSize - 1 \<longrightarrow> fst (pickAccentColor fm used) \<notin> used)) \<and>
      fst (pickAccentColor fm used) \<in> set accentPalette \<and>
      snd (pickAccentColor fm used) = insert (fst (pickAccentColor fm used)) used) \<and>
   ((\<forall>p \<in> set items. \<not> truthy (accentColor p)) \<longrightarrow>
      length (fst (pickAll items used)) = length items \<and>
      set (fst (pickAll items used)) \<subseteq> set accentPalette)"
proof -
  have one: "\<exists>n. pickLoop used (title fm) 0 (getAccentColor (accentColor fm) (title fm) 0)
              = (n, fst (pickAccentColor fm used)) \<and>
           n \<le> paletteSize - 1 \<and>
           fst (pickAccentColor fm used) = getAccentColor None (title fm) n \<and>
           (\<forall>j < n. getAccentColor None (title fm) j \<in> used) \<and>
           (n < paletteSize - 1 \<longrightarrow> fst (pickAccentColor fm used) \<notin> used)"
    if falsy: "\<not> truthy (accentColor fm)"
  proof -
    obtain n a where na: "pickLoop used (title fm) 0 (getAccentColor None (title fm) 0) = (n, a)"
      by (cases "pickLoop used (title fm) 0 (getAccentColor None (title fm) 0)")
    have zero: "0 \<le> paletteSize - 1"
      by simp
    from pickLoop_probe [OF zero refl na]
    have probe: "n \<le> paletteSize - 1" "a = getAccentColor None (title fm) n"
      "\<forall>j. 0 \<le> j \<and> j < n \<longrightarrow> getAccentColor None (title fm) j \<in> used"
      "n < paletteSize - 1 \<longrightarrow> a \<notin> used"
      by blast+
    have res: "fst (pickAccentColor fm used) = a"
      by (simp add: pickAccentColor_falsy [OF falsy] na)
    have start: "getAccentColor (accentColor fm) (title fm) 0 = getAccentColor None (title fm) 0"
      by (rule getAccentColor_falsy [OF falsy])
    show ?thesis
      unfolding res start using na probe by blast
  qed
  have two: "snd (pickAccentColor fm used) = insert (fst (pickAccentColor fm used)) used"
    by (simp add: pickAccentColor_def Let_def)
  show ?thesis
    using one two pickAccentColor_falsy_member [of fm used] pickAll_length [of items used]
      pickAll_members [of items used]
    by blast
qed



lemma hash_a: "hashString (js ''a'') = 97"
  by (simp add: js_def hashString_def hashStep_def toInt32_def shiftLeft32_def)

lemma colour_a: "getAccentColor None [97] off = accentPalette ! ((7 + off) mod 10)"
  using hash_a by (simp add: getAccentColor_None js_def)


lemma palette_distinct: "distinct accentPalette"
  by (simp add: accentPalette_def js_def)

lemma palette_nth_eq:
  "i < 10 \<Longrightarrow> j < 10 \<Longrightarrow> accentPalette ! i = accentPalette ! j \<longleftrightarrow> i = j"
  by (simp add: nth_eq_iff_index_eq palette_distinct length_accentPalette)

lemma eleven_posts:
  fixes post
  defines "post \<equiv> \<lparr>title = js ''a'', accentColor = None\<rparr>"
  shows "fst (pickAll (replicate 11 post) {}) =
     [accentPalette ! 7, accentPalette ! 8, accentPalette ! 9, accentPalette ! 0, accentPalette ! 1, accentPalette ! 2, accentPalette ! 3, accentPalette ! 4, accentPalette ! 5, accentPalette ! 6, accentPalette ! 6]"
proof -
  have s0: "pickAccentColor post {} = (accentPalette ! 7, {accentPalette ! 7})"
    by (simp add: post_def js_def pickAccentColor_def Let_def truthy_def pickLoop.simps colour_a
        paletteSize_eq palette_nth_eq)
  have s1: "pickAccentColor post {accentPalette ! 7} = (accentPalette ! 8, {accentPalette ! 8, accentPalette ! 7})"
    by (simp add: post_def js_def pickAccentColor_def Let_def truthy_def pickLoop.simps colour_a
        paletteSize_eq palette_nth_eq)
  have s2: "pickAccentColor post {accentPalette ! 8, accentPalette ! 7} = (accentPalette ! 9, {accentPalette ! 9, accentPalette ! 8, accentPalette ! 7})"
    by (simp add: post_def js_def pickAccentColor_def Let_def truthy_def pickLoop.simps colour_a
        paletteSize_eq palette_nth_eq)
  have s3: "pickAccentColor post {accentPalette ! 9, accentPalette ! 8, accentPalette ! 7} = (accentPalette ! 0, {accentPalette ! 0, accentPalette ! 9, accentPalette ! 8, accentPalette ! 7})"
    by (simp add: post_def js_def pickAccentColor_def Let_def truthy_def pickLoop.simps colour_a
        paletteSize_eq palette_nth_eq)
  have s4: "pickAccentColor post {accentPalette ! 0, accentPalette ! 9, accentPalette ! 8, accentPalette ! 7} = (accentPalette ! 1, {accentPalette ! 1, accentPalette ! 0, accentPalette ! 9, accentPalette ! 8, accentPalette ! 7})"
    by (simp add: post_def js_def pickAccentColor_def Let_def truthy_def pickLoop.simps colour_a
        paletteSize_eq palette_nth_eq)
  have s5: "pickAccentColor post {accentPalette ! 1, accentPalette ! 0, accentPalette ! 9, accentPalette ! 8, accentPalette ! 7} = (accentPalette ! 2, {accentPalette ! 2, accentPalette ! 1, accentPalette ! 0, accentPalette ! 9, accentPalette ! 8, accentPalette ! 7})"
    by (simp add: post_def js_def pickAccentColor_def Let_def truthy_def pickLoop.simps colour_a
        paletteSize_eq palette_nth_eq)
  have s6: "pickAccentColor post {accentPalette ! 2, accentPalette ! 1, accentPalette ! 0, accentPalette ! 9, accentPalette ! 8, accentPalette ! 7} = (accentPalette ! 3, {accentPalette ! 3, accentPalette ! 2, accentPalette ! 1, accentPalette ! 0, accentPalette ! 9, accentPalette ! 8, accentPalette ! 7})"
    by (simp add: post_def js_def pickAccentColor_def Let_def truthy_def pickLoop.simps colour_a
        paletteSize_eq palette_nth_eq)
  have s7: "pickAccentColor post {accentPalette ! 3, accentPalette ! 2, accentPalette ! 1, accentPalette ! 0, accentPalette ! 9, accentPalette ! 8, accentPalette ! 7} = (accentPalette ! 4, {accentPalette ! 4, accentPalette ! 3, accentPalette ! 2, accentPalette ! 1, accentPalette ! 0, accentPalette ! 9, accentPalette ! 8, accentPalette ! 7})"
    by (simp add: post_def js_def pickAccentColor_def Let_def truthy_def pickLoop.simps colour_a
        paletteSize_eq palette_nth_eq)
  have s8: "pickAccentColor post {accentPalette ! 4, accentPalette ! 3, accentPalette ! 2, accentPalette ! 1, accentPalette ! 0, accentPalette ! 9, accentPalette ! 8, accentPalette ! 7} = (accentPalette ! 5, {accentPalette ! 5, accentPalette ! 4, accentPalette ! 3, accentPalette ! 2, accentPalette ! 1, accentPalette ! 0, accentPalette ! 9, accentPalette ! 8, accentPalette ! 7})"
    by (simp add: post_def js_def pickAccentColor_def Let_def truthy_def pickLoop.simps colour_a
        paletteSize_eq palette_nth_eq)
  have s9: "pickAccentColor post {accentPalette ! 5, accentPalette ! 4, accentPalette ! 3, accentPalette ! 2, accentPalette ! 1, accentPalette ! 0, accentPalette ! 9, accentPalette ! 8, accentPalette ! 7} = (accentPalette ! 6, {accentPalette ! 6, accentPalette ! 5, accentPalette ! 4, accentPalette ! 3, accentPalette ! 2, accentPalette ! 1, accentPalette ! 0, accentPalette ! 9, accentPalette ! 8, accentPalette ! 7})"
    by (simp add: post_def js_def pickAccentColor_def Let_def truthy_def pickLoop.simps colour_a
        paletteSize_eq palette_nth_eq)
  have s10: "pickAccentColor post {accentPalette ! 6, accentPalette ! 5, accentPalette ! 4, accentPalette ! 3, accentPalette ! 2, accentPalette ! 1, accentPalette ! 0, accentPalette ! 9, accentPalette ! 8, accentPalette ! 7} = (accentPalette ! 6, {accentPalette ! 6, accentPalette ! 5, accentPalette ! 4, accentPalette ! 3, accentPalette ! 2, accentPalette ! 1, accentPalette ! 0, accentPalette ! 9, accentPalette ! 8, accentPalette ! 7})"
    by (simp add: post_def js_def pickAccentColor_def Let_def truthy_def pickLoop.simps colour_a
        paletteSize_eq palette_nth_eq)
  have "replicate 11 post = [post, post, post, post, post, post, post, post, post, post, post]"
    by (simp add: eval_nat_numeral)
  then show ?thesis
    by (simp only: pickAll.simps s0 s1 s2 s3 s4 s5 s6 s7 s8 s9 s10 prod.case fst_conv)
qed

text \<open>
  Eleven posts with the same title: the ten palette entries are handed out in rotation from
  base index 7, and the eleventh post receives entry 6 again.
\<close>

theorem pickAccentColor_probing_witness:
  "\<not> truthy (accentColor \<lparr>title = js ''a'', accentColor = None\<rparr>) \<and>
   fst (pickAccentColor \<lparr>title = js ''a'', accentColor = None\<rparr> {}) \<in> set accentPalette \<and>
   list_all (\<lambda>p. \<not> truthy (accentColor p)) (replicate 11 \<lparr>title = js ''a'', accentColor = None\<rparr>) \<and>
   length (fst (pickAll (replicate 11 \<lparr>title = js ''a'', accentColor = None\<rparr>) {})) = 11 \<and>
   set (fst (pickAll (replicate 11 \<lparr>title = js ''a'', accentColor = None\<rparr>) {})) \<subseteq> set accentPalette \<and>
   fst (pickAll (replicate 11 \<lparr>title = js ''a'', accentColor = None\<rparr>) {}) ! 10 = accentPalette ! 6 \<and>
   fst (pickAll (replicate 11 \<lparr>title = js ''a'', accentColor = None\<rparr>) {}) ! 9 = accentPalette ! 6"
proof -
  have one: "\<not> truthy (accentColor \<lparr>title = js ''a'', accentColor = None\<rparr>)"
    by (simp add: truthy_def)
  have all: "\<forall>p \<in> set (replicate 11 \<lparr>title = js ''a'', accentColor = None\<rparr>). \<not> truthy (accentColor p)"
    by (simp add: truthy_def)
  have len: "length (replicate 11 \<lparr>title = js ''a'', accentColor = None\<rparr>) = 11"
    by simp
  show ?thesis
    using pickAccentColor_probing [of "\<lparr>title = js ''a'', accentColor = None\<rparr>" "{}"
        "replicate 11 \<lparr>title = js ''a'', accentColor = None\<rparr>"] one all
    by (simp only: len eleven_posts list_all_iff) simp
qed

text \<open>
  Claim C10. An item whose \<open>accentColor\<close> field is present and non-empty but is not a hex
  colour takes the early return: the result is the palette entry at the hash-derived base
  index (offset 0), it is added to the used set, and the probing loop is never entered. This
  holds for every used set, also one that already holds that colour while other palette
  entries are free.
\<close>

theorem pickAccentColor_invalid_explicit:
  assumes "accentColor fm = Some p" and "p \<noteq> []" and "\<not> hexColorRegex_test p"
  shows "pickAccentColor fm used =
           (accentPalette ! (nat (hashString (title fm)) mod paletteSize),
            insert (accentPalette ! (nat (hashString (title fm)) mod paletteSize)) used) \<and>
         accentPalette ! (nat (hashString (title fm)) mod paletteSize) = getAccentColor None (title fm) 0"
proof -
  have start: "getAccentColor (accentColor fm) (title fm) 0 = getAccentColor None (title fm) 0"
    using assms by (simp add: getAccentColor_def)
  have base: "accentPalette ! (nat (hashString (title fm)) mod paletteSize) = getAccentColor None (title fm) 0"
    by (simp add: getAccentColor_None paletteSize_eq)
  have "truthy (accentColor fm)"
    using assms by (simp add: truthy_def)
  then show ?thesis
    using start base by (simp add: pickAccentColor_def Let_def)
qed

text \<open>
  The post titled \<open>a\<close> has base index 7. With the invalid colour \<open>teal\<close> it is given
  palette entry 7 although that entry is already used and entry 8 is free; the same post
  without the field is moved on to entry 8.
\<close>

theorem pickAccentColor_invalid_explicit_witness:
  "accentColor \<lparr>title = js ''a'', accentColor = Some (js ''teal'')\<rparr> = Some (js ''teal'') \<and>
   js ''teal'' \<noteq> [] \<and> \<not> hexColorRegex_test (js ''teal'') \<and>
   pickAccentColor \<lparr>title = js ''a'', accentColor = Some (js ''teal'')\<rparr> {accentPalette ! 7}
     = (accentPalette ! 7, {accentPalette ! 7}) \<and>
   accentPalette ! 8 \<notin> {accentPalette ! 7} \<and>
   pickAccentColor \<lparr>title = js ''a'', accentColor = None\<rparr> {accentPalette ! 7}
     = (accentPalette ! 8, {accentPalette ! 8, accentPalette ! 7})"
proof -
  have sel: "accentColor \<lparr>title = js ''a'', accentColor = Some (js ''teal'')\<rparr> = Some (js ''teal'')"
    by simp
  have ne: "js ''teal'' \<noteq> []"
    by (simp add: js_def)
  have no: "\<not> hexColorRegex_test (js ''teal'')"
    by (simp add: js_def hexColorRegex_test_def)
  have idx: "nat (hashString (title \<lparr>title = js ''a'', accentColor = Some (js ''teal'')\<rparr>)) mod paletteSize = 7"
    by (simp add: hash_a paletteSize_eq)
  have free: "accentPalette ! 8 \<notin> {accentPalette ! 7}"
    by (simp add: palette_nth_eq)
  have other: "pickAccentColor \<lparr>title = js ''a'', accentColor = None\<rparr> {accentPalette ! 7}
     = (accentPalette ! 8, {accentPalette ! 8, accentPalette ! 7})"
    by (simp add: js_def pickAccentColor_def Let_def truthy_def pickLoop.simps colour_a
        paletteSize_eq palette_nth_eq)
  from pickAccentColor_invalid_explicit [OF sel ne no, of "{accentPalette ! 7}", THEN conjunct1]
  have raw: "pickAccentColor \<lparr>title = js ''a'', accentColor = Some (js ''teal'')\<rparr> {accentPalette ! 7}
     = (accentPalette ! 7, insert (accentPalette ! 7) {accentPalette ! 7})"
    by (simp only: idx)
  have "pickAccentColor \<lparr>title = js ''a'', accentColor = Some (js ''teal'')\<rparr> {accentPalette ! 7}
     = (accentPalette ! 7, {accentPalette ! 7})"
    using raw by (simp only: insert_absorb2)
  then show ?thesis
    using sel ne no free other by blast
qed

section \<open>Hexadecimal colours\<close>

lemma below_16_cases:
  "d < 16 \<Longrightarrow> d = 0 \<or> d = 1 \<or> d = 2 \<or> d = 3 \<or> d = 4 \<or> d = 5 \<or> d = 6 \<or> d = 7 \<or>
     d = 8 \<or> d = 9 \<or> d = 10 \<or> d = 11 \<or> d = 12 \<or> d = 13 \<or> d = 14 \<or> d = (15::nat)"
  by arith

lemma isHexDigit_hexDigitChar: "d < 16 \<Longrightarrow> isHexDigit (hexDigitChar d)"
  using below_16_cases [of d] by (auto simp: isHexDigit_def hexDigitChar_def)

lemma hexValue_hexDigitChar: "d < 16 \<Longrightarrow> hexValue (hexDigitChar d) = int d"
  using below_16_cases [of d] by (auto simp: hexValue_def hexDigitChar_def)

lemma digits16_byte:
  "m < 256 \<Longrightarrow>
   digits16 m = (if m < 16 then [hexDigitChar m] else [hexDigitChar (m div 16), hexDigitChar (m mod 16)])"
proof -
  assume "m < 256"
  then have "m div 16 < 16" by simp
  then have "digits16 (m div 16) = [hexDigitChar (m div 16)]"
    by (simp add: digits16.simps [of "m div 16"])
  then show ?thesis
    by (simp add: digits16.simps [of m])
qed

lemma componentToHex_digits:
  "componentToHex c =
     [hexDigitChar (nat (clamp (round c) 0 255) div 16), hexDigitChar (nat (clamp (round c) 0 255) mod 16)]"
proof -
  define m where "m = nat (clamp (round c) 0 255)"
  have range: "0 \<le> clamp (round c) 0 255" "clamp (round c) 0 255 \<le> 255"
    by (simp_all add: clamp_def)
  then have m: "m < 256" "clamp (round c) 0 255 = int m"
    by (simp_all add: m_def)
  have zero: "hexDigitChar 0 = 0x30"
    by (simp add: hexDigitChar_def)
  show ?thesis
    unfolding m_def [symmetric]
    using m(1) by (simp add: componentToHex_def Let_def m(2) toString16_def digits16_byte zero)
qed

lemma toInt32_small: "0 \<le> x \<Longrightarrow> x < 2147483648 \<Longrightarrow> toInt32 x = x"
  by (simp add: toInt32_def sint_sbintrunc' signed_take_bit_int_eq_self)

lemma and_255: "(x::int) AND 255 = x mod 256"
proof -
  have "(255::int) = mask 8"
    by (simp add: mask_eq_exp_minus_1)
  then have "x AND 255 = take_bit 8 x"
    by (simp only: take_bit_eq_mask)
  then show ?thesis
    by (simp add: take_bit_eq_mod)
qed

lemma and32_255: "0 \<le> x \<Longrightarrow> x < 2147483648 \<Longrightarrow> and32 x 255 = x mod 256"
  by (simp add: and32_def toInt32_small and_255)

lemma shiftRight32_small:
  "0 \<le> x \<Longrightarrow> x < 2147483648 \<Longrightarrow> shiftRight32 x n = x div 2 ^ (n mod 32)"
  by (simp add: shiftRight32_def toInt32_small drop_bit_eq_div)

lemma parseInt16_six:
  assumes "isHexDigit c1" "isHexDigit c2" "isHexDigit c3" "isHexDigit c4" "isHexDigit c5" "isHexDigit c6"
  shows "parseInt16 [c1, c2, c3, c4, c5, c6] =
           Some (((((hexValue c1 * 16 + hexValue c2) * 16 + hexValue c3) * 16 + hexValue c4) * 16
                  + hexValue c5) * 16 + hexValue c6)"
  using assms by (simp add: parseInt16_def)

lemma channels_of_value:
  fixes x y z :: int
  assumes "0 \<le> x" "x \<le> 255" "0 \<le> y" "y \<le> 255" "0 \<le> z" "z \<le> 255"
  defines "v \<equiv> x * 65536 + y * 256 + z"
  shows "and32 (shiftRight32 v 16) 255 = x" "and32 (shiftRight32 v 8) 255 = y" "and32 v 255 = z"
proof -
  have v: "0 \<le> v" "v < 2147483648"
    using assms by (simp_all add: v_def)
  have d16: "v div 65536 = x"
    using assms by (simp add: v_def)
  have d8: "v div 256 = x * 256 + y"
    using assms by (simp add: v_def)
  show "and32 (shiftRight32 v 16) 255 = x"
    using v assms(1,2) by (simp add: shiftRight32_small d16 and32_255)
  show "and32 (shiftRight32 v 8) 255 = y"
    using v assms(1-4) by (simp add: shiftRight32_small d8 and32_255)
  have "v = z + 256 * (x * 256 + y)"
    by (simp add: v_def)
  then have "v mod 256 = z mod 256"
    by (simp only: mod_mult_self2)
  then have m0: "v mod 256 = z"
    using assms(5,6) by simp
  show "and32 v 255 = z"
    using v by (simp add: and32_255 m0)
qed


lemma rgbToHex_digits:
  "rgbToHex rgb =
     [0x23,
      hexDigitChar (nat (clamp (round (r rgb)) 0 255) div 16), hexDigitChar (nat (clamp (round (r rgb)) 0 255) mod 16),
      hexDigitChar (nat (clamp (round (g rgb)) 0 255) div 16), hexDigitChar (nat (clamp (round (g rgb)) 0 255) mod 16),
      hexDigitChar (nat (clamp (round (b rgb)) 0 255) div 16), hexDigitChar (nat (clamp (round (b rgb)) 0 255) mod 16)]"
  by (simp add: rgbToHex_def componentToHex_digits)

lemma hexToRgb_six:
  assumes "x < 256" "y < 256" "z < 256"
  shows "hexToRgb [0x23, hexDigitChar (x div 16), hexDigitChar (x mod 16),
                         hexDigitChar (y div 16), hexDigitChar (y mod 16),
                         hexDigitChar (z div 16), hexDigitChar (z mod 16)]
           = Some \<lparr>r = real x, g = real y, b = real z\<rparr>"
proof -
  have small: "x div 16 < 16" "x mod 16 < 16" "y div 16 < 16" "y mod 16 < 16" "z div 16 < 16" "z mod 16 < 16"
    using assms by simp_all
  note hex = small [THEN isHexDigit_hexDigitChar]
  note val = small [THEN hexValue_hexDigitChar]
  have regex: "hexColorRegex_test [0x23, hexDigitChar (x div 16), hexDigitChar (x mod 16),
                         hexDigitChar (y div 16), hexDigitChar (y mod 16),
                         hexDigitChar (z div 16), hexDigitChar (z mod 16)]"
    using hex by (simp add: hexColorRegex_test_def)
  have byte: "int (n div 16) * 16 + int (n mod 16) = int n" for n
    by (simp add: zdiv_int zmod_int)
  have "((((int (x div 16) * 16 + int (x mod 16)) * 16 + int (y div 16)) * 16 + int (y mod 16)) * 16
                  + int (z div 16)) * 16 + int (z mod 16)
        = (int (x div 16) * 16 + int (x mod 16)) * 65536 + (int (y div 16) * 16 + int (y mod 16)) * 256
          + (int (z div 16) * 16 + int (z mod 16))"
    by (simp add: algebra_simps)
  then have poly: "((((int (x div 16) * 16 + int (x mod 16)) * 16 + int (y div 16)) * 16 + int (y mod 16)) * 16
                  + int (z div 16)) * 16 + int (z mod 16) = int x * 65536 + int y * 256 + int z"
    by (simp only: byte)
  have parse: "parseInt16 [hexDigitChar (x div 16), hexDigitChar (x mod 16),
                         hexDigitChar (y div 16), hexDigitChar (y mod 16),
                         hexDigitChar (z div 16), hexDigitChar (z mod 16)]
      = Some (int x * 65536 + int y * 256 + int z)"
    by (simp only: parseInt16_six [OF hex] val poly)
  have ch: "and32 (shiftRight32 (int x * 65536 + int y * 256 + int z) 16) 255 = int x"
    "and32 (shiftRight32 (int x * 65536 + int y * 256 + int z) 8) 255 = int y"
    "and32 (int x * 65536 + int y * 256 + int z) 255 = int z"
    using assms by (simp_all add: channels_of_value)
  show ?thesis
    by (simp add: hexToRgb_def regex parse ch)
qed

text \<open>
  Claim C5. Encoding a triple of integer channels, each between 0 and 255, with \<open>rgbToHex\<close>
  and parsing the result with \<open>hexToRgb\<close> gives back exactly that triple. The encoding is
  the \<open>#\<close> and six digits.
\<close>

theorem rgb_hex_roundtrip:
  fixes x y z :: int
  assumes "0 \<le> x \<and> x \<le> 255" and "0 \<le> y \<and> y \<le> 255" and "0 \<le> z \<and> z \<le> 255"
  shows "hexToRgb (rgbToHex \<lparr>r = of_int x, g = of_int y, b = of_int z\<rparr>)
           = Some \<lparr>r = of_int x, g = of_int y, b = of_int z\<rparr> \<and>
         length (rgbToHex \<lparr>r = of_int x, g = of_int y, b = of_int z\<rparr>) = 7"
proof -
  have cl: "nat (clamp x 0 255) = nat x" "nat (clamp y 0 255) = nat y" "nat (clamp z 0 255) = nat z"
    using assms by (simp_all add: clamp_def)
  have lt: "nat x < 256" "nat y < 256" "nat z < 256"
    using assms by auto
  have trip: "hexToRgb (rgbToHex \<lparr>r = of_int x, g = of_int y, b = of_int z\<rparr>)
           = Some \<lparr>r = of_int x, g = of_int y, b = of_int z\<rparr>"
    using hexToRgb_six [OF lt] assms by (simp add: rgbToHex_digits cl)
  have seven: "length (rgbToHex \<lparr>r = of_int x, g = of_int y, b = of_int z\<rparr>) = 7"
    by (simp add: rgbToHex_digits)
  show ?thesis
    using trip seven by (rule conjI)
qed

lemma hexDigitChar_lower: "d < 16 \<Longrightarrow> hexDigitChar d = lowerHexDigits ! d"
  using below_16_cases [of d] by (auto simp: hexDigitChar_def lowerHexDigits_def js_def)

lemma componentToHex_spec: "componentToHex c = specChannelHex c"
proof -
  have "clamp (round c) 0 255 = min 255 (max 0 (round c))"
    by (simp add: clamp_def min.commute max.commute)
  moreover have "nat (min 255 (max 0 (round c))) < 256"
    by simp
  ultimately show ?thesis
    by (simp add: componentToHex_digits specChannelHex_def Let_def hexDigitChar_lower)
qed

lemma hexToRgb_black: "hexToRgb (js ''#000000'') = Some \<lparr>r = 0, g = 0, b = 0\<rparr>"
  using hexToRgb_six [of 0 0 0] by (simp add: hexDigitChar_def js_def)

lemma hexToRgb_white: "hexToRgb (js ''#ffffff'') = Some \<lparr>r = 255, g = 255, b = 255\<rparr>"
  using hexToRgb_six [of 255 255 255] by (simp add: hexDigitChar_def js_def)

lemma binade_bracket:
  "0 < x \<Longrightarrow> 2 powi binade x \<le> x \<and> x < 2 powi (binade x + 1)"
proof (induction x rule: binade.induct)
  case (1 x)
  show ?case
  proof (cases "2 \<le> x")
    case True
    then have b: "binade x = binade (x / 2) + 1"
      by (simp add: binade.simps [of x])
    have "2 powi binade (x / 2) \<le> x / 2 \<and> x / 2 < 2 powi (binade (x / 2) + 1)"
      using 1 True by simp
    then show ?thesis
      unfolding b by (simp add: power_int_add field_simps)
  next
    case False
    show ?thesis
    proof (cases "x < 1")
      case True
      then have b: "binade x = binade (2 * x) - 1"
        using False 1(3) by (simp add: binade.simps [of x])
      have "2 powi binade (2 * x) \<le> 2 * x \<and> 2 * x < 2 powi (binade (2 * x) + 1)"
        using 1 True False by simp
      then show ?thesis
        unfolding b by (simp add: power_int_diff power_int_add field_simps)
    next
      case notsmall: False
      then have "binade x = 0"
        using False 1(3) by (simp add: binade.simps [of x])
      then show ?thesis
        using False notsmall by simp
    qed
  qed
qed

lemma roundTiesToEven_near: "\<bar>of_int (roundTiesToEven y) - y\<bar> \<le> 1 / 2"
  unfolding roundTiesToEven_def Let_def by (auto simp: abs_le_iff)

lemma ulpAt_eq: "ulpAt e = 2 powi (e - 52)"
  by (auto simp: ulpAt_def power_int_def field_simps)

lemma ulpAt_pos: "0 < ulpAt e"
  by (simp add: ulpAt_eq)

lemma toDouble_near:
  "\<bar>toDouble x - x\<bar> \<le> ulpAt (max (binade \<bar>x\<bar>) (- 1022)) / 2"
proof (cases "x = 0")
  case True
  then show ?thesis
    using ulpAt_pos [of "max (binade \<bar>x\<bar>) (- 1022)"] by (simp add: toDouble_def)
next
  case False
  define u where "u = ulpAt (max (binade \<bar>x\<bar>) (- 1022))"
  have u: "0 < u"
    by (simp add: u_def ulpAt_pos)
  have "\<bar>of_int (roundTiesToEven (x / u)) - x / u\<bar> \<le> 1 / 2"
    by (rule roundTiesToEven_near)
  then have "\<bar>of_int (roundTiesToEven (x / u)) - x / u\<bar> * u \<le> 1 / 2 * u"
    using u by (simp only: mult_le_cancel_right_pos)
  moreover have "(of_int (roundTiesToEven (x / u)) - x / u) * u
                   = of_int (roundTiesToEven (x / u)) * u - x"
    using u by (simp add: left_diff_distrib)
  then have "\<bar>of_int (roundTiesToEven (x / u)) - x / u\<bar> * u
                   = \<bar>of_int (roundTiesToEven (x / u)) * u - x\<bar>"
    using u by (metis abs_mult abs_of_pos)
  ultimately show ?thesis
    using False by (simp add: toDouble_def Let_def u_def [symmetric])
qed

lemmas double_eval = toDouble_def binade.simps ulpAt_def roundTiesToEven_def Let_def
  doubleAdd_def doubleMul_def doubleSub_def

lemma hexToRgb_sky: "hexToRgb (js ''#0ea5e9'') = Some \<lparr>r = 14, g = 165, b = 233\<rparr>"
  using hexToRgb_six [of 14 165 233] by (simp add: hexDigitChar_def js_def)

lemma literal_half: "numberLiteral 0.5 = Finite 0.5"
  by (simp add: numberLiteral_def double_eval)

lemma literal_quarter: "numberLiteral 0.25 = Finite 0.25"
  by (simp add: numberLiteral_def double_eval)

lemma literal_three_tenths:
  "numberLiteral 0.3 = Finite (5404319552844595 / 18014398509481984)"
  by (simp add: numberLiteral_def double_eval)

lemma clampNumber_unit: "clampNumber (Finite x) 0 1 = Some (min 1 (max 0 x))"
  by (simp add: clampNumber_def min.commute max.commute)

lemma mixHexColors_parsed:
  assumes "hexToRgb color = Some ca" and "hexToRgb mixWith = Some cm"
    and "clampNumber weight 0 1 = Some t"
  shows "mixHexColors color mixWith weight =
           rgbToHex \<lparr> r = doubleAdd (doubleMul (r ca) (doubleSub 1 t)) (doubleMul (r cm) t),
                      g = doubleAdd (doubleMul (g ca) (doubleSub 1 t)) (doubleMul (g cm) t),
                      b = doubleAdd (doubleMul (b ca) (doubleSub 1 t)) (doubleMul (b cm) t) \<rparr>"
  using assms by (simp add: mixHexColors_def)

lemma mixHexColors_not_a_number:
  assumes "hexToRgb color = Some ca" and "hexToRgb mixWith = Some cm"
  shows "mixHexColors color mixWith NaN = js ''#NaNNaNNaN''"
  using assms by (simp add: mixHexColors_def clampNumber_def nanComponent_def js_def)

lemma clamp_half: "clampNumber (numberLiteral 0.5) 0 1 = Some 0.5"
  by (simp only: literal_half clampNumber_unit) simp

lemma clamp_quarter: "clampNumber (numberLiteral 0.25) 0 1 = Some 0.25"
  by (simp only: literal_quarter clampNumber_unit) simp

lemma clamp_three_tenths:
  "clampNumber (numberLiteral 0.3) 0 1 = Some (5404319552844595 / 18014398509481984)"
  by (simp only: literal_three_tenths clampNumber_unit) simp

lemma mix_black_white:
  "mixHexColors (js ''#000000'') (js ''#ffffff'') (numberLiteral 0.5) = js ''#808080''"
proof -
  have "mixHexColors (js ''#000000'') (js ''#ffffff'') (numberLiteral 0.5) =
          rgbToHex \<lparr> r = doubleAdd (doubleMul 0 (doubleSub 1 0.5)) (doubleMul 255 0.5),
                     g = doubleAdd (doubleMul 0 (doubleSub 1 0.5)) (doubleMul 255 0.5),
                     b = doubleAdd (doubleMul 0 (doubleSub 1 0.5)) (doubleMul 255 0.5) \<rparr>"
    using mixHexColors_parsed [OF hexToRgb_black hexToRgb_white clamp_half] by simp
  also have "\<dots> = js ''#808080''"
    by (simp add: double_eval rgbToHex_digits clamp_def hexDigitChar_def js_def round_def)
  finally show ?thesis .
qed

lemma mix_sky_black:
  "mixHexColors (js ''#0ea5e9'') (js ''#000000'') (numberLiteral 0.3) = js ''#0a73a3''"
proof -
  let ?t = "5404319552844595 / 18014398509481984 :: real"
  have "mixHexColors (js ''#0ea5e9'') (js ''#000000'') (numberLiteral 0.3) =
          rgbToHex \<lparr> r = doubleAdd (doubleMul 14 (doubleSub 1 ?t)) (doubleMul 0 ?t),
                     g = doubleAdd (doubleMul 165 (doubleSub 1 ?t)) (doubleMul 0 ?t),
                     b = doubleAdd (doubleMul 233 (doubleSub 1 ?t)) (doubleMul 0 ?t) \<rparr>"
    using mixHexColors_parsed [OF hexToRgb_sky hexToRgb_black clamp_three_tenths] by simp
  also have "\<dots> = rgbToHex \<lparr>r = 5516909543528857 / 562949953421312,
                             g = 8127589952520191 / 70368744177664,
                             b = 5738571087688499 / 35184372088832\<rparr>"
    by (simp add: double_eval)
  also have "\<dots> = js ''#0a73a3''"
    by (simp add: rgbToHex_digits clamp_def hexDigitChar_def js_def round_def)
  finally show ?thesis .
qed

lemma spec_sky_black:
  "specMixHexColors (js ''#0ea5e9'') (js ''#000000'') (5404319552844595 / 18014398509481984)
     = js ''#0a74a3''"
proof -
  have "specMixHexColors (js ''#0ea5e9'') (js ''#000000'') (5404319552844595 / 18014398509481984)
          = 0x23 # specChannelHex (14 * (1 - 5404319552844595 / 18014398509481984))
               @ specChannelHex (165 * (1 - 5404319552844595 / 18014398509481984))
               @ specChannelHex (233 * (1 - 5404319552844595 / 18014398509481984))"
    unfolding specMixHexColors_def hexToRgb_sky hexToRgb_black by simp
  also have "\<dots> = js ''#0a74a3''"
    by (simp add: specChannelHex_def lowerHexDigits_def js_def round_def)
  finally show ?thesis .
qed

lemma mix_nan: "mixHexColors (js ''#000000'') (js ''#ffffff'') NaN = js ''#NaNNaNNaN''"
  by (rule mixHexColors_not_a_number [OF hexToRgb_black hexToRgb_white])

lemma toLinear_0: "toLinear 0 = 0"
  by (simp add: toLinear_def)

lemma toLinear_255: "toLinear 255 = 1"
  by (simp add: toLinear_def)

lemma readable_black: "getReadableTextColor (js ''#000000'') = js ''#f8fafc''"
  by (simp add: getReadableTextColor_def getLuminance_def hexToRgb_black toLinear_0)

lemma readable_white: "getReadableTextColor (js ''#ffffff'') = js ''#0f172a''"
  by (simp add: getReadableTextColor_def getLuminance_def hexToRgb_white toLinear_255)

lemma hexToRgb_not_a_color: "hexToRgb (js ''not-a-color'') = None"
  by (simp add: hexToRgb_def hexColorRegex_test_def js_def)


text \<open>
  The round trip at the triple (255, 0, 17), whose encoding is \<open>#ff0011\<close>.
\<close>

theorem rgb_hex_roundtrip_witness:
  "(0::int) \<le> 255 \<and> (255::int) \<le> 255 \<and> (0::int) \<le> 0 \<and> (0::int) \<le> 255 \<and> (0::int) \<le> 17 \<and> (17::int) \<le> 255 \<and>
   rgbToHex \<lparr>r = 255, g = 0, b = 17\<rparr> = js ''#ff0011'' \<and>
   hexToRgb (js ''#ff0011'') = Some \<lparr>r = 255, g = 0, b = 17\<rparr>"
proof -
  have enc: "rgbToHex \<lparr>r = 255, g = 0, b = 17\<rparr> = js ''#ff0011''"
    by (simp add: rgbToHex_digits clamp_def hexDigitChar_def js_def)
  have "hexToRgb (rgbToHex \<lparr>r = of_int 255, g = of_int 0, b = of_int 17\<rparr>)
          = Some \<lparr>r = of_int 255, g = of_int 0, b = of_int 17\<rparr>"
    by (rule rgb_hex_roundtrip [THEN conjunct1]) simp_all
  then have "hexToRgb (js ''#ff0011'') = Some \<lparr>r = 255, g = 0, b = 17\<rparr>"
    by (simp add: enc)
  then show ?thesis
    using enc by simp
qed

text \<open>
  The claim as stated gives the channel as \<open>a * (1 - t) + b * t\<close>, rounded to the nearest
  integer. The source evaluates that expression in double-precision arithmetic, and the
  rounding of the intermediate results can move the value across a half. The page mixes the
  palette colour \<^verbatim>\<open>#0ea5e9\<close> with black at weight \<^verbatim>\<open>0.3\<close>: the green channel is 165, the
  double nearest to 0.3 is \<open>5404319552844595 / 2^54\<close>, the exact formula gives a value just
  above 115.5 and so 116, while the source computes \<^verbatim>\<open>1 - 0.3\<close> as the double below 0.7 and
  the product as the double below 115.5, which is rounded to 115. The source returns
  \<^verbatim>\<open>#0a73a3\<close>, the formula \<^verbatim>\<open>#0a74a3\<close>. A weight that is \<^verbatim>\<open>NaN\<close> gives no hexadecimal digits
  at all.
\<close>

theorem mixHexColors_exact_arithmetic_counterexample:
  "numberLiteral 0.3 = Finite (5404319552844595 / 18014398509481984) \<and>
   mixHexColors (js ''#0ea5e9'') (js ''#000000'') (numberLiteral 0.3) = js ''#0a73a3'' \<and>
   specMixHexColors (js ''#0ea5e9'') (js ''#000000'') (5404319552844595 / 18014398509481984)
     = js ''#0a74a3'' \<and>
   mixHexColors (js ''#0ea5e9'') (js ''#000000'') (numberLiteral 0.3)
     \<noteq> specMixHexColors (js ''#0ea5e9'') (js ''#000000'') (5404319552844595 / 18014398509481984) \<and>
   mixHexColors (js ''#000000'') (js ''#ffffff'') NaN = js ''#NaNNaNNaN''"
proof -
  have differ: "mixHexColors (js ''#0ea5e9'') (js ''#000000'') (numberLiteral 0.3)
     \<noteq> specMixHexColors (js ''#0ea5e9'') (js ''#000000'') (5404319552844595 / 18014398509481984)"
    unfolding mix_sky_black spec_sky_black by (simp add: js_def)
  show ?thesis
    by (intro conjI literal_three_tenths mix_sky_black spec_sky_black differ mix_nan)
qed

text \<open>
  Claim C6, amended. When both colours parse and the weight is not \<^verbatim>\<open>NaN\<close>, the weight is
  clamped to a ratio \<open>t\<close> between 0 and 1 (an infinite weight to the nearer bound), every
  channel of the result is \<open>a * (1 - t) + b * t\<close> evaluated in double-precision arithmetic,
  each of the four operations rounded to the nearest double, and that value is rounded to
  the nearest integer, clamped to the range 0 to 255 and written as two lower-case
  hexadecimal digits after a leading \<open>#\<close>. With a \<^verbatim>\<open>NaN\<close> weight the result is
  \<^verbatim>\<open>#NaNNaNNaN\<close>. Mixing black and white with weight one half gives \<^verbatim>\<open>#808080\<close>, because a
  half is rounded upwards.
\<close>

theorem mixHexColors_interpolates:
  assumes "hexToRgb color = Some ca" and "hexToRgb mixWith = Some cm"
  shows "(\<forall>t. clampNumber weight 0 1 = Some t \<longrightarrow>
            mixHexColors color mixWith weight =
              0x23 # specChannelHex (doubleAdd (doubleMul (r ca) (doubleSub 1 t)) (doubleMul (r cm) t))
                   @ specChannelHex (doubleAdd (doubleMul (g ca) (doubleSub 1 t)) (doubleMul (g cm) t))
                   @ specChannelHex (doubleAdd (doubleMul (b ca) (doubleSub 1 t)) (doubleMul (b cm) t))) \<and>
         (\<forall>x. weight = Finite x \<longrightarrow> clampNumber weight 0 1 = Some (min 1 (max 0 x))) \<and>
         (weight = PosInfinity \<longrightarrow> clampNumber weight 0 1 = Some 1) \<and>
         (weight = NegInfinity \<longrightarrow> clampNumber weight 0 1 = Some 0) \<and>
         (weight = NaN \<longrightarrow> mixHexColors color mixWith weight = js ''#NaNNaNNaN'') \<and>
         mixHexColors (js ''#000000'') (js ''#ffffff'') (numberLiteral 0.5) = js ''#808080''"
proof -
  have mixed: "\<forall>t. clampNumber weight 0 1 = Some t \<longrightarrow>
            mixHexColors color mixWith weight =
              0x23 # specChannelHex (doubleAdd (doubleMul (r ca) (doubleSub 1 t)) (doubleMul (r cm) t))
                   @ specChannelHex (doubleAdd (doubleMul (g ca) (doubleSub 1 t)) (doubleMul (g cm) t))
                   @ specChannelHex (doubleAdd (doubleMul (b ca) (doubleSub 1 t)) (doubleMul (b cm) t))"
    using assms by (simp add: mixHexColors_parsed rgbToHex_def componentToHex_spec)
  have finite: "\<forall>x. weight = Finite x \<longrightarrow> clampNumber weight 0 1 = Some (min 1 (max 0 x))"
    by (simp add: clampNumber_unit)
  have up: "weight = PosInfinity \<longrightarrow> clampNumber weight 0 1 = Some 1"
    by (simp add: clampNumber_def)
  have down: "weight = NegInfinity \<longrightarrow> clampNumber weight 0 1 = Some 0"
    by (simp add: clampNumber_def)
  have nan: "weight = NaN \<longrightarrow> mixHexColors color mixWith weight = js ''#NaNNaNNaN''"
    using mixHexColors_not_a_number [OF assms] by simp
  show ?thesis
    by (intro conjI mixed finite up down nan mix_black_white)
qed

text \<open>
  The call of the page again, now through the theorem: the three channels are the doubles
  just below 9.8, 115.5 and 163.1, written \<open>0a\<close>, \<open>73\<close> and \<open>a3\<close>.
\<close>

theorem mixHexColors_interpolates_witness:
  "hexToRgb (js ''#0ea5e9'') = Some \<lparr>r = 14, g = 165, b = 233\<rparr> \<and>
   hexToRgb (js ''#000000'') = Some \<lparr>r = 0, g = 0, b = 0\<rparr> \<and>
   clampNumber (numberLiteral 0.3) 0 1 = Some (5404319552844595 / 18014398509481984) \<and>
   mixHexColors (js ''#0ea5e9'') (js ''#000000'') (numberLiteral 0.3)
     = 0x23 # specChannelHex (5516909543528857 / 562949953421312)
          @ specChannelHex (8127589952520191 / 70368744177664)
          @ specChannelHex (5738571087688499 / 35184372088832) \<and>
   specChannelHex (5516909543528857 / 562949953421312) = js ''0a'' \<and>
   specChannelHex (8127589952520191 / 70368744177664) = js ''73'' \<and>
   specChannelHex (5738571087688499 / 35184372088832) = js ''a3''"
proof -
  let ?t = "5404319552844595 / 18014398509481984 :: real"
  have d1: "specChannelHex (5516909543528857 / 562949953421312) = js ''0a''"
    by (simp add: specChannelHex_def lowerHexDigits_def js_def round_def)
  have d2: "specChannelHex (8127589952520191 / 70368744177664) = js ''73''"
    by (simp add: specChannelHex_def lowerHexDigits_def js_def round_def)
  have d3: "specChannelHex (5738571087688499 / 35184372088832) = js ''a3''"
    by (simp add: specChannelHex_def lowerHexDigits_def js_def round_def)
  have ch: "doubleAdd (doubleMul 14 (doubleSub 1 ?t)) (doubleMul 0 ?t) = 5516909543528857 / 562949953421312"
    "doubleAdd (doubleMul 165 (doubleSub 1 ?t)) (doubleMul 0 ?t) = 8127589952520191 / 70368744177664"
    "doubleAdd (doubleMul 233 (doubleSub 1 ?t)) (doubleMul 0 ?t) = 5738571087688499 / 35184372088832"
    by (simp_all add: double_eval)
  from mixHexColors_interpolates [OF hexToRgb_sky hexToRgb_black, of "numberLiteral 0.3", THEN conjunct1]
    clamp_three_tenths
  have "mixHexColors (js ''#0ea5e9'') (js ''#000000'') (numberLiteral 0.3)
     = 0x23 # specChannelHex (doubleAdd (doubleMul 14 (doubleSub 1 ?t)) (doubleMul 0 ?t))
          @ specChannelHex (doubleAdd (doubleMul 165 (doubleSub 1 ?t)) (doubleMul 0 ?t))
          @ specChannelHex (doubleAdd (doubleMul 233 (doubleSub 1 ?t)) (doubleMul 0 ?t))"
    by simp
  then have "mixHexColors (js ''#0ea5e9'') (js ''#000000'') (numberLiteral 0.3)
     = 0x23 # specChannelHex (5516909543528857 / 562949953421312)
          @ specChannelHex (8127589952520191 / 70368744177664)
          @ specChannelHex (5738571087688499 / 35184372088832)"
    by (simp only: ch)
  then show ?thesis
    by (intro conjI hexToRgb_sky hexToRgb_black clamp_three_tenths d1 d2 d3)
qed

text \<open>
  Claim C7. \<open>hexToRgb\<close> has a value on every string: it is \<open>None\<close> exactly on the strings
  that fail the hex pattern, and no step of it can fail. \<open>hexToRgba\<close> returns such a string
  unchanged; on a string that parses it builds \<open>rgba(r, g, b, alpha)\<close> from the channels and
  the alpha value clamped to the interval from 0 to 1. The number formatting of template
  literals is a parameter of the model.
\<close>

theorem hex_parsing_never_raises:
  "(\<not> hexColorRegex_test color \<longrightarrow> hexToRgb color = None \<and> hexToRgba numberToString color alpha = color) \<and>
   (hexColorRegex_test color \<longrightarrow>
      (\<exists>rgb. hexToRgb color = Some rgb \<and>
         hexToRgba numberToString color alpha =
           js ''rgba('' @ numberToString (r rgb) @ js '', '' @ numberToString (g rgb) @ js '', ''
             @ numberToString (b rgb) @ js '', '' @ numberToString (min 1 (max 0 alpha)) @ js '')'')) \<and>
   hexToRgb (js ''not-a-color'') = None"
proof -
  have t: "clamp alpha 0 1 = min 1 (max 0 alpha)"
    by (simp add: clamp_def min.commute max.commute)
  have miss: "hexToRgb color = None" if "\<not> hexColorRegex_test color"
    using that by (simp add: hexToRgb_def)
  have hit: "\<exists>rgb. hexToRgb color = Some rgb" if "hexColorRegex_test color"
    using that by (simp add: hexToRgb_def Let_def)
  show ?thesis
    using miss hit hexToRgb_not_a_color by (auto simp: hexToRgba_def Let_def t)
qed

text \<open>
  One string that fails the pattern and one that matches it. All four numbers of the second
  call are zero, so a formatter that prints \<open>0\<close> stands for the built-in one.
\<close>

theorem hex_parsing_never_raises_witness:
  "\<not> hexColorRegex_test (js ''not-a-color'') \<and>
   hexToRgba (\<lambda>x. js ''0'') (js ''not-a-color'') 2 = js ''not-a-color'' \<and>
   hexColorRegex_test (js ''#000000'') \<and>
   hexToRgba (\<lambda>x. js ''0'') (js ''#000000'') 0 = js ''rgba(0, 0, 0, 0)''"
proof -
  have no: "\<not> hexColorRegex_test (js ''not-a-color'')"
    by (simp add: hexColorRegex_test_def js_def)
  have yes: "hexColorRegex_test (js ''#000000'')"
    by (simp add: hexColorRegex_test_def js_def isHexDigit_def)
  have one: "hexToRgba (\<lambda>x. js ''0'') (js ''not-a-color'') 2 = js ''not-a-color''"
    using hex_parsing_never_raises [of "js ''not-a-color''" "\<lambda>x. js ''0''" 2] no by blast
  have two: "hexToRgba (\<lambda>x. js ''0'') (js ''#000000'') 0 = js ''rgba(0, 0, 0, 0)''"
    using hex_parsing_never_raises [of "js ''#000000''" "\<lambda>x. js ''0''" 0] yes
    by (auto simp: js_def)
  show ?thesis
    using no yes one two by blast
qed

lemma toLinear_wcag: "toLinear channel = wcagLinear (channel / 255)"
  by (simp add: toLinear_def wcagLinear_def Let_def)

text \<open>
  Claim C4. The text colour is the near-black \<open>#0f172a\<close> when the relative luminance of the
  background exceeds one half and the near-white \<open>#f8fafc\<close> otherwise; a background that
  does not parse has luminance one half and so takes the near-white. Black takes the
  near-white and white the near-black.
\<close>

theorem getReadableTextColor_threshold:
  "getReadableTextColor background =
     (case hexToRgb background of
        None \<Rightarrow> js ''#f8fafc''
      | Some rgb \<Rightarrow> if wcagLuminance rgb > 0.5 then js ''#0f172a'' else js ''#f8fafc'') \<and>
   getReadableTextColor background = (if getLuminance background > 0.5 then js ''#0f172a'' else js ''#f8fafc'') \<and>
   getReadableTextColor (js ''#000000'') = js ''#f8fafc'' \<and>
   getReadableTextColor (js ''#ffffff'') = js ''#0f172a''"
proof -
  have spec: "getReadableTextColor background =
     (case hexToRgb background of
        None \<Rightarrow> js ''#f8fafc''
      | Some rgb \<Rightarrow> if wcagLuminance rgb > 0.5 then js ''#0f172a'' else js ''#f8fafc'')"
    by (simp add: getReadableTextColor_def getLuminance_def toLinear_wcag wcagLuminance_def
        split: option.split)
  have code: "getReadableTextColor background =
     (if getLuminance background > 0.5 then js ''#0f172a'' else js ''#f8fafc'')"
    by (simp only: getReadableTextColor_def)
  show ?thesis
    by (intro conjI spec code readable_black readable_white)
qed

section \<open>Initials and headline words\<close>

lemma splitRuns_concat: "concat (splitRuns sep s) = filter (\<lambda>c. \<not> sep c) s"
proof (induction sep s rule: splitRuns.induct)
  case (1 sep)
  then show ?case by simp
next
  case (2 sep c cs)
  show ?case
  proof (cases "sep c")
    case True
    have "filter (\<lambda>c. \<not> sep c) (dropWhile sep cs) = filter (\<lambda>c. \<not> sep c) cs"
      by (induction cs) simp_all
    then show ?thesis
      using True 2 by simp
  next
    case False
    then show ?thesis
      using 2 by (auto split: list.splits)
  qed
qed

lemma dropWhile_all_iff: "(\<forall>x \<in> set (dropWhile P xs). P x) \<longleftrightarrow> dropWhile P xs = []"
proof
  assume all: "\<forall>x \<in> set (dropWhile P xs). P x"
  show "dropWhile P xs = []"
  proof (rule ccontr)
    assume ne: "dropWhile P xs \<noteq> []"
    then have "\<not> P (hd (dropWhile P xs))"
      by (rule hd_dropWhile)
    moreover have "hd (dropWhile P xs) \<in> set (dropWhile P xs)"
      using ne by simp
    ultimately show False
      using all by blast
  qed
next
  assume empty: "dropWhile P xs = []"
  show "\<forall>x \<in> set (dropWhile P xs). P x"
    unfolding empty by simp
qed

lemma trim_Nil_iff: "trim v = [] \<longleftrightarrow> list_all isWhiteSpace v"
proof -
  have "trim v = [] \<longleftrightarrow> (\<forall>x \<in> set (dropWhile isWhiteSpace v). isWhiteSpace x)"
    by (simp add: trim_def)
  also have "\<dots> \<longleftrightarrow> dropWhile isWhiteSpace v = []"
    by (rule dropWhile_all_iff)
  also have "\<dots> \<longleftrightarrow> list_all isWhiteSpace v"
    by (simp add: list_all_iff)
  finally show ?thesis .
qed

lemma trim_has_visible:
  assumes "trim v \<noteq> []"
  shows "\<exists>c \<in> set (trim v). \<not> isWhiteSpace c"
proof -
  let ?u = "dropWhile isWhiteSpace (rev (dropWhile isWhiteSpace v))"
  have ne: "?u \<noteq> []"
    using assms by (simp add: trim_def)
  then have "\<not> isWhiteSpace (hd ?u)"
    by (rule hd_dropWhile)
  moreover have "hd ?u \<in> set (trim v)"
    using ne by (simp add: trim_def)
  ultimately show ?thesis
    by blast
qed

lemma wordsOf_Nil_iff: "wordsOf v = [] \<longleftrightarrow> trim v = []"
proof
  assume "wordsOf v = []"
  then have "\<forall>w \<in> set (splitRuns isWhiteSpace (trim v)). w = []"
    by (auto simp: wordsOf_def filter_empty_conv)
  then have "concat (splitRuns isWhiteSpace (trim v)) = []"
    by simp
  then have "filter (\<lambda>c. \<not> isWhiteSpace c) (trim v) = []"
    by (simp add: splitRuns_concat)
  then show "trim v = []"
    using trim_has_visible [of v] by (auto simp: filter_empty_conv)
next
  assume "trim v = []"
  then show "wordsOf v = []"
    by (simp add: wordsOf_def)
qed

lemma wordsOf_nonempty: "w \<in> set (wordsOf v) \<Longrightarrow> w \<noteq> []"
  by (simp add: wordsOf_def)

lemma js_jane: "trim (js ''Jane Doe'') = js ''Jane Doe''"
  by (simp add: trim_def js_def isWhiteSpace_def)

lemma words_jane: "wordsOf (js ''Jane Doe'') = [js ''Jane'', js ''Doe'']"
  by (simp add: wordsOf_def js_jane) (simp add: js_def isWhiteSpace_def)

lemma splitRuns_at_separator: "sep d \<Longrightarrow> splitRuns sep (d # ds) = [] # splitRuns sep (dropWhile sep ds)"
  by simp

lemma splitRuns_extend: "\<not> sep d \<Longrightarrow> splitRuns sep ds = p # ps \<Longrightarrow> splitRuns sep (d # ds) = (d # p) # ps"
  by simp

lemma splitRuns_extend_Nil: "\<not> sep d \<Longrightarrow> splitRuns sep ds = [] \<Longrightarrow> splitRuns sep (d # ds) = [[d]]"
  by simp

lemma splitRuns_pieces_separator:
  assumes "sep d" and IH: "\<forall>w \<in> set (splitRuns sep (dropWhile sep ds)). \<forall>c \<in> set w. \<not> sep c"
  shows "\<forall>w \<in> set (splitRuns sep (d # ds)). \<forall>c \<in> set w. \<not> sep c"
proof -
  have "splitRuns sep (d # ds) = [] # splitRuns sep (dropWhile sep ds)"
    using assms(1) by (rule splitRuns_at_separator [of sep d ds])
  then show ?thesis
    using IH by (simp only:) simp
qed

lemma splitRuns_pieces_extend:
  assumes "\<not> sep d" and IH: "\<forall>w \<in> set (splitRuns sep ds). \<forall>c \<in> set w. \<not> sep c"
  shows "\<forall>w \<in> set (splitRuns sep (d # ds)). \<forall>c \<in> set w. \<not> sep c"
proof (cases "splitRuns sep ds")
  case Nil
  show ?thesis
    using assms(1) by (simp only: splitRuns_extend_Nil [OF assms(1) Nil]) simp
next
  case (Cons p ps)
  have "\<forall>c \<in> set p. \<not> sep c" "\<forall>w \<in> set ps. \<forall>c \<in> set w. \<not> sep c"
    using IH unfolding Cons by simp_all
  then show ?thesis
    using assms(1) by (simp only: splitRuns_extend [OF assms(1) Cons]) simp
qed

lemma splitRuns_pieces: "\<forall>w \<in> set (splitRuns sep s). \<forall>c \<in> set w. \<not> sep c"
proof (induction sep s rule: splitRuns.induct)
  case (1 sep)
  then show ?case by simp
next
  case (2 sep d ds)
  show ?case
  proof (cases "sep d")
    case True
    with 2(1) show ?thesis
      by (intro splitRuns_pieces_separator) 
  next
    case False
    with 2(2) show ?thesis
      by (intro splitRuns_pieces_extend)
  qed
qed

lemma wordsOf_visible:
  assumes "w \<in> set (wordsOf v)"
  shows "list_all (\<lambda>c. \<not> isWhiteSpace c) w"
proof -
  have "w \<in> set (splitRuns isWhiteSpace (trim v))"
    using assms by (simp add: wordsOf_def)
  then have "\<forall>c \<in> set w. \<not> isWhiteSpace c"
    using splitRuns_pieces [of isWhiteSpace "trim v"] by blast
  then show ?thesis
    by (simp add: list_all_iff)
qed

lemma getInitials_none: "wordsOf v = [] \<Longrightarrow> getInitials up v = js ''TEN''"
  by (simp add: wordsOf_Nil_iff getInitials_def)

lemma getInitials_one:
  assumes "wordsOf v = [w]"
  shows "getInitials up v = up (if length w = 1 then [w ! 0, w ! 0] else [w ! 0, w ! 1])"
proof -
  have visible: "trim v \<noteq> []"
    using assms wordsOf_Nil_iff [of v] by simp
  have "w \<noteq> []"
    using assms wordsOf_nonempty [of w v] by simp
  then obtain a rest where w: "w = a # rest"
    by (cases w) simp_all
  have words: "filter (\<lambda>w. w \<noteq> []) (splitRuns isWhiteSpace (trim v)) = [a # rest]"
    using assms by (simp add: wordsOf_def w)
  show ?thesis
    using visible by (cases rest) (simp_all add: getInitials_def Let_def charAt_def words w)
qed

lemma getInitials_many:
  assumes "wordsOf v = w1 # w2 # ws"
  shows "getInitials up v = up [w1 ! 0, w2 ! 0]"
proof -
  have "trim v \<noteq> []"
    using assms wordsOf_Nil_iff [of v] by simp
  moreover have "w1 \<noteq> []" "w2 \<noteq> []"
    using assms wordsOf_nonempty [of _ v] by simp_all
  ultimately show ?thesis
    using assms [unfolded wordsOf_def]
    by (simp add: getInitials_def Let_def charAt_def)
qed

lemma getInitials_two_units:
  assumes "wordsOf v \<noteq> []"
  shows "\<exists>x. length x = 2 \<and> getInitials up v = up x"
proof (cases "wordsOf v")
  case Nil
  then show ?thesis using assms by simp
next
  case (Cons w1 rest)
  show ?thesis
  proof (cases rest)
    case Nil
    then have "getInitials up v = up (if length w1 = 1 then [w1 ! 0, w1 ! 0] else [w1 ! 0, w1 ! 1])"
      using Cons getInitials_one by simp
    then show ?thesis
      by (intro exI [of _ "if length w1 = 1 then [w1 ! 0, w1 ! 0] else [w1 ! 0, w1 ! 1]"]) simp
  next
    case (Cons w2 ws)
    then have "getInitials up v = up [w1 ! 0, w2 ! 0]"
      using \<open>wordsOf v = w1 # rest\<close> getInitials_many by simp
    then show ?thesis
      by (intro exI [of _ "[w1 ! 0, w2 ! 0]"]) simp
  qed
qed

lemma initials_empty: "getInitials toUpperCaseLatin1 (js '''') = js ''TEN''"
  by (simp add: getInitials_def trim_def js_def)

lemma words_A: "wordsOf (js ''A'') = [js ''A'']"
  by (simp add: wordsOf_def trim_def js_def isWhiteSpace_def)

lemma initials_A: "getInitials toUpperCaseLatin1 (js ''A'') = js ''AA''"
  by (simp add: getInitials_one [OF words_A]) (simp add: js_def toUpperCaseLatin1_def upperLatin1_def)

lemma initials_jane: "getInitials toUpperCaseLatin1 (js ''Jane Doe'') = js ''JD''"
  by (simp add: getInitials_many [OF words_jane [unfolded list.simps]])
    (simp add: js_def toUpperCaseLatin1_def upperLatin1_def)

lemma words_eszett: "wordsOf [0x61, 0xDF] = [[0x61, 0xDF]]"
  by (simp add: wordsOf_def trim_def isWhiteSpace_def)

text \<open>
  The claim as stated promises two characters whenever there is a word. Upper-casing follows
  the Unicode full case mapping, which is not length-preserving: the sharp s (U+00DF) becomes
  \<open>SS\<close>. For the one-word name made of \<open>a\<close> followed by the sharp s the function returns
  the three units \<open>ASS\<close>.
\<close>

theorem getInitials_eszett_counterexample:
  "wordsOf [0x61, 0xDF] = [[0x61, 0xDF]] \<and>
   getInitials toUpperCaseLatin1 [0x61, 0xDF] = js ''ASS'' \<and>
   length (getInitials toUpperCaseLatin1 [0x61, 0xDF]) \<noteq> 2"
proof -
  have "getInitials toUpperCaseLatin1 [0x61, 0xDF] = js ''ASS''"
    by (simp add: getInitials_one [OF words_eszett]) (simp add: js_def toUpperCaseLatin1_def upperLatin1_def)
  then show ?thesis
    using words_eszett by (simp add: js_def)
qed

text \<open>
  Claim C8, amended. The input is trimmed and split at runs of white space; the words are
  non-empty and free of white space. With no word the result is the fallback \<open>TEN\<close>. With
  one word it is the upper-casing of the word's first two UTF-16 code units, a word of one
  unit giving that unit twice. With two or more words it is the upper-casing of the first
  units of the first two words, later words being ignored. So whenever there is a word the
  result is the upper-casing of a string of two code units, for every upper-casing function;
  its length is two when that upper-casing preserves length. The three examples are evaluated
  with the mapping of Basic Latin and Latin-1.
\<close>

theorem getInitials_cases:
  "(wordsOf v = [] \<longrightarrow> getInitials up v = js ''TEN'') \<and>
   (\<forall>w. wordsOf v = [w] \<longrightarrow>
      getInitials up v = up (if length w = 1 then [w ! 0, w ! 0] else [w ! 0, w ! 1])) \<and>
   (\<forall>w1 w2 ws. wordsOf v = w1 # w2 # ws \<longrightarrow> getInitials up v = up [w1 ! 0, w2 ! 0]) \<and>
   (wordsOf v \<noteq> [] \<longrightarrow> (\<exists>x. length x = 2 \<and> getInitials up v = up x)) \<and>
   (wordsOf v = [] \<longleftrightarrow> trim v = []) \<and>
   (\<forall>w \<in> set (wordsOf v). w \<noteq> [] \<and> list_all (\<lambda>c. \<not> isWhiteSpace c) w) \<and>
   getInitials toUpperCaseLatin1 (js '''') = js ''TEN'' \<and>
   getInitials toUpperCaseLatin1 (js ''A'') = js ''AA'' \<and>
   getInitials toUpperCaseLatin1 (js ''Jane Doe'') = js ''JD''"
proof -
  have one: "\<forall>w. wordsOf v = [w] \<longrightarrow>
      getInitials up v = up (if length w = 1 then [w ! 0, w ! 0] else [w ! 0, w ! 1])"
    by (intro allI impI) (rule getInitials_one)
  have many: "\<forall>w1 w2 ws. wordsOf v = w1 # w2 # ws \<longrightarrow> getInitials up v = up [w1 ! 0, w2 ! 0]"
    by (intro allI impI) (rule getInitials_many)
  have two: "wordsOf v \<noteq> [] \<longrightarrow> (\<exists>x. length x = 2 \<and> getInitials up v = up x)"
    by (intro impI) (rule getInitials_two_units)
  have none: "wordsOf v = [] \<longrightarrow> getInitials up v = js ''TEN''"
    by (intro impI) (rule getInitials_none)
  have shape: "\<forall>w \<in> set (wordsOf v). w \<noteq> [] \<and> list_all (\<lambda>c. \<not> isWhiteSpace c) w"
    by (intro ballI conjI) (erule wordsOf_nonempty, erule wordsOf_visible)
  show ?thesis
    by (intro conjI none one many two wordsOf_Nil_iff shape initials_empty initials_A initials_jane)
qed

text \<open>
  The three cases at the inputs of the examples: no word, one word of one unit, two words.
\<close>

theorem getInitials_cases_witness:
  "wordsOf (js '''') = [] \<and>
   getInitials toUpperCaseLatin1 (js '''') = js ''TEN'' \<and>
   wordsOf (js ''A'') = [js ''A''] \<and>
   getInitials toUpperCaseLatin1 (js ''A'') = toUpperCaseLatin1 (js ''AA'') \<and>
   wordsOf (js ''Jane Doe'') = [js ''Jane'', js ''Doe''] \<and>
   getInitials toUpperCaseLatin1 (js ''Jane Doe'') = toUpperCaseLatin1 (js ''JD'') \<and>
   toUpperCaseLatin1 (js ''JD'') = js ''JD''"
proof -
  have w0: "wordsOf (js '''') = []"
    by (simp add: wordsOf_def trim_def js_def)
  note all = getInitials_cases [of "js ''''" toUpperCaseLatin1]
  have r0: "getInitials toUpperCaseLatin1 (js '''') = js ''TEN''"
    using all w0 by blast
  from getInitials_cases [of "js ''A''" toUpperCaseLatin1] words_A
  have "getInitials toUpperCaseLatin1 (js ''A'')
          = toUpperCaseLatin1 (if length (js ''A'') = 1 then [js ''A'' ! 0, js ''A'' ! 0]
                               else [js ''A'' ! 0, js ''A'' ! 1])"
    by blast
  then have r1: "getInitials toUpperCaseLatin1 (js ''A'') = toUpperCaseLatin1 (js ''AA'')"
    by (simp add: js_def)
  from getInitials_cases [of "js ''Jane Doe''" toUpperCaseLatin1] words_jane
  have "getInitials toUpperCaseLatin1 (js ''Jane Doe'')
          = toUpperCaseLatin1 [js ''Jane'' ! 0, js ''Doe'' ! 0]"
    by blast
  then have r2: "getInitials toUpperCaseLatin1 (js ''Jane Doe'') = toUpperCaseLatin1 (js ''JD'')"
    by (simp add: js_def)
  have up: "toUpperCaseLatin1 (js ''JD'') = js ''JD''"
    by (simp add: js_def toUpperCaseLatin1_def upperLatin1_def)
  show ?thesis
    by (intro conjI w0 r0 words_A r1 words_jane r2 up)
qed

lemma splitEach_pieces: "\<forall>w \<in> set (splitEach sep s). \<forall>c \<in> set w. \<not> sep c"
proof (induction s)
  case Nil
  then show ?case by simp
next
  case (Cons d ds)
  show ?case
  proof (cases "sep d")
    case True
    then show ?thesis
      using Cons by simp
  next
    case False
    then show ?thesis
      using Cons by (cases "splitEach sep ds") simp_all
  qed
qed

lemma dashParts_shape:
  assumes "p \<in> set (dashParts w)"
  shows "p \<noteq> [] \<and> list_all (\<lambda>c. \<not> isDash c) p"
proof -
  have "p \<in> set (splitEach isDash w)" "p \<noteq> []"
    using assms by (simp_all add: dashParts_def)
  then show ?thesis
    using splitEach_pieces [of isDash w] by (simp add: list_all_iff)
qed

lemma getPrimaryWords_override:
  assumes "parseAccentWords ov = p # ps"
  shows "getPrimaryWords v ov = [p, (case ps of [] \<Rightarrow> [] | q # _ \<Rightarrow> q)]"
  using assms by (cases ps) (simp_all add: getPrimaryWords_def Let_def)

lemma getPrimaryWords_none:
  assumes "parseAccentWords ov = []" and "wordsOf v = []"
  shows "getPrimaryWords v ov = [js ''TEN'', js ''Blog'']"
  using assms by (simp add: getPrimaryWords_def Let_def wordsOf_Nil_iff)

lemma getPrimaryWords_one:
  assumes "parseAccentWords ov = []" and "wordsOf v = [w]"
  shows "getPrimaryWords v ov = (case dashParts w of p1 # p2 # _ \<Rightarrow> [p1, p2] | _ \<Rightarrow> [w, []])"
proof -
  have visible: "trim v \<noteq> []"
    using assms(2) wordsOf_Nil_iff [of v] by simp
  have words: "filter (\<lambda>w. w \<noteq> []) (splitRuns isWhiteSpace (trim v)) = [w]"
    using assms(2) by (simp add: wordsOf_def)
  have parts: "filter (\<lambda>w. w \<noteq> []) (splitEach isDash w) = dashParts w"
    by (simp add: dashParts_def)
  show ?thesis
  proof (cases "dashParts w")
    case Nil
    then show ?thesis
      using visible by (simp add: getPrimaryWords_def Let_def assms(1) words parts)
  next
    case (Cons p1 rest)
    then show ?thesis
      using visible by (cases rest) (simp_all add: getPrimaryWords_def Let_def assms(1) words parts)
  qed
qed

lemma getPrimaryWords_many:
  assumes "parseAccentWords ov = []" and "wordsOf v = w1 # w2 # ws"
  shows "getPrimaryWords v ov = [w1, w2]"
proof -
  have visible: "trim v \<noteq> []"
    using assms(2) wordsOf_Nil_iff [of v] by simp
  have words: "filter (\<lambda>w. w \<noteq> []) (splitRuns isWhiteSpace (trim v)) = w1 # w2 # ws"
    using assms(2) by (simp add: wordsOf_def)
  show ?thesis
    using visible by (simp add: getPrimaryWords_def Let_def assms(1) words)
qed

lemma primary_self_driving:
  "getPrimaryWords (js ''Self-Driving'') None = [js ''Self'', js ''Driving'']"
proof -
  have none: "parseAccentWords None = []"
    by (simp add: parseAccentWords_def)
  have words: "wordsOf (js ''Self-Driving'') = [js ''Self-Driving'']"
    by (simp add: wordsOf_def trim_def js_def isWhiteSpace_def)
  have parts: "dashParts (js ''Self-Driving'') = [js ''Self'', js ''Driving'']"
    by (simp add: dashParts_def js_def isDash_def)
  show ?thesis
    by (simp add: getPrimaryWords_one [OF none words] parts)
qed

lemma primary_empty: "getPrimaryWords (js '''') None = [js ''TEN'', js ''Blog'']"
proof -
  have none: "parseAccentWords None = []"
    by (simp add: parseAccentWords_def)
  have words: "wordsOf (js '''') = []"
    by (simp add: wordsOf_def trim_def js_def)
  show ?thesis
    by (rule getPrimaryWords_none [OF none words])
qed

text \<open>
  Claim C9. A non-empty parsed override decides the result: its first element and its second
  element, or the empty string when there is none. Otherwise a title without words, that is
  an empty or white-space-only title, gives the pair \<open>TEN\<close>, \<open>Blog\<close>; a title of one word
  is split at every hyphen, en dash and em dash and gives its first two non-empty parts when
  there are two, else the word and the empty string; a title of several words gives its first
  two words.
\<close>

theorem getPrimaryWords_cases:
  "(\<forall>p ps. parseAccentWords ov = p # ps \<longrightarrow>
      getPrimaryWords v ov = [p, (case ps of [] \<Rightarrow> [] | q # _ \<Rightarrow> q)]) \<and>
   (parseAccentWords ov = [] \<and> wordsOf v = [] \<longrightarrow>
      getPrimaryWords v ov = [js ''TEN'', js ''Blog'']) \<and>
   (\<forall>w. parseAccentWords ov = [] \<and> wordsOf v = [w] \<longrightarrow>
      getPrimaryWords v ov = (case dashParts w of p1 # p2 # _ \<Rightarrow> [p1, p2] | _ \<Rightarrow> [w, []])) \<and>
   (\<forall>w1 w2 ws. parseAccentWords ov = [] \<and> wordsOf v = w1 # w2 # ws \<longrightarrow>
      getPrimaryWords v ov = [w1, w2]) \<and>
   (wordsOf v = [] \<longleftrightarrow> list_all isWhiteSpace v) \<and>
   (\<forall>w \<in> set (wordsOf v). w \<noteq> [] \<and> list_all (\<lambda>c. \<not> isWhiteSpace c) w) \<and>
   (\<forall>w. \<forall>p \<in> set (dashParts w). p \<noteq> [] \<and> list_all (\<lambda>c. \<not> isDash c) p) \<and>
   getPrimaryWords (js ''Self-Driving'') None = [js ''Self'', js ''Driving''] \<and>
   getPrimaryWords (js '''') None = [js ''TEN'', js ''Blog'']"
proof -
  have override: "\<forall>p ps. parseAccentWords ov = p # ps \<longrightarrow>
      getPrimaryWords v ov = [p, (case ps of [] \<Rightarrow> [] | q # _ \<Rightarrow> q)]"
    by (intro allI impI) (rule getPrimaryWords_override)
  have none: "parseAccentWords ov = [] \<and> wordsOf v = [] \<longrightarrow>
      getPrimaryWords v ov = [js ''TEN'', js ''Blog'']"
    using getPrimaryWords_none [of ov v] by blast
  have one: "\<forall>w. parseAccentWords ov = [] \<and> wordsOf v = [w] \<longrightarrow>
      getPrimaryWords v ov = (case dashParts w of p1 # p2 # _ \<Rightarrow> [p1, p2] | _ \<Rightarrow> [w, []])"
    using getPrimaryWords_one [of ov v] by blast
  have many: "\<forall>w1 w2 ws. parseAccentWords ov = [] \<and> wordsOf v = w1 # w2 # ws \<longrightarrow>
      getPrimaryWords v ov = [w1, w2]"
    using getPrimaryWords_many [of ov v] by blast
  have blank: "wordsOf v = [] \<longleftrightarrow> list_all isWhiteSpace v"
    by (simp only: wordsOf_Nil_iff trim_Nil_iff)
  have shape: "\<forall>w \<in> set (wordsOf v). w \<noteq> [] \<and> list_all (\<lambda>c. \<not> isWhiteSpace c) w"
    by (intro ballI conjI) (erule wordsOf_nonempty, erule wordsOf_visible)
  have parts: "\<forall>w. \<forall>p \<in> set (dashParts w). p \<noteq> [] \<and> list_all (\<lambda>c. \<not> isDash c) p"
    by (intro allI ballI) (erule dashParts_shape)
  show ?thesis
    by (intro conjI override none one many blank shape parts primary_self_driving primary_empty)
qed

lemma words_hello: "wordsOf (js '' Hello  brave world'') = [js ''Hello'', js ''brave'', js ''world'']"
  by (simp add: wordsOf_def trim_def js_def isWhiteSpace_def)

lemma parse_single:
  "parseAccentWords (Some (Single (js ''Voice, Agent|x''))) = [js ''Voice'', js ''Agent'', js ''x'']"
  by (simp add: parseAccentWords_def js_def isOverrideSeparator_def trim_def isWhiteSpace_def)

lemma parse_many: "parseAccentWords (Some (Many [js '' Solo '', js '''']))= [js ''Solo'']"
  by (simp add: parseAccentWords_def js_def trim_def isWhiteSpace_def)

lemma words_endash: "wordsOf [0x41, 0x2013, 0x42] = [[0x41, 0x2013, 0x42]]"
  by (simp add: wordsOf_def trim_def isWhiteSpace_def)

lemma parts_endash: "dashParts [0x41, 0x2013, 0x42] = [[0x41], [0x42]]"
  by (simp add: dashParts_def isDash_def)

text \<open>
  Each case at a concrete call: an override given as a string and as an array, the empty
  title, a word split at an en dash, and a title of three words.
\<close>

theorem getPrimaryWords_cases_witness:
  "parseAccentWords (Some (Single (js ''Voice, Agent|x''))) = [js ''Voice'', js ''Agent'', js ''x''] \<and>
   getPrimaryWords (js ''Title'') (Some (Single (js ''Voice, Agent|x''))) = [js ''Voice'', js ''Agent''] \<and>
   parseAccentWords (Some (Many [js '' Solo '', js ''''])) = [js ''Solo''] \<and>
   getPrimaryWords (js ''Title'') (Some (Many [js '' Solo '', js ''''])) = [js ''Solo'', []] \<and>
   parseAccentWords None = [] \<and>
   wordsOf (js '''') = [] \<and>
   getPrimaryWords (js '''') None = [js ''TEN'', js ''Blog''] \<and>
   wordsOf [0x41, 0x2013, 0x42] = [[0x41, 0x2013, 0x42]] \<and>
   getPrimaryWords [0x41, 0x2013, 0x42] None = [[0x41], [0x42]] \<and>
   wordsOf (js '' Hello  brave world'') = [js ''Hello'', js ''brave'', js ''world''] \<and>
   getPrimaryWords (js '' Hello  brave world'') None = [js ''Hello'', js ''brave'']"
proof -
  have none: "parseAccentWords None = []"
    by (simp add: parseAccentWords_def)
  have w0: "wordsOf (js '''') = []"
    by (simp add: wordsOf_def trim_def js_def)
  have r1: "getPrimaryWords (js ''Title'') (Some (Single (js ''Voice, Agent|x''))) = [js ''Voice'', js ''Agent'']"
    using getPrimaryWords_cases [of "Some (Single (js ''Voice, Agent|x''))" "js ''Title''"] parse_single
    by simp
  have r2: "getPrimaryWords (js ''Title'') (Some (Many [js '' Solo '', js ''''])) = [js ''Solo'', []]"
    using getPrimaryWords_cases [of "Some (Many [js '' Solo '', js ''''])" "js ''Title''"] parse_many
    by simp
  have r3: "getPrimaryWords (js '''') None = [js ''TEN'', js ''Blog'']"
    using getPrimaryWords_cases [of None "js ''''"] none w0 by blast
  have "getPrimaryWords [0x41, 0x2013, 0x42] None =
          (case dashParts [0x41, 0x2013, 0x42] of p1 # p2 # _ \<Rightarrow> [p1, p2] | _ \<Rightarrow> [[0x41, 0x2013, 0x42], []])"
    using getPrimaryWords_cases [of None "[0x41, 0x2013, 0x42]"] none words_endash by blast
  then have r4: "getPrimaryWords [0x41, 0x2013, 0x42] None = [[0x41], [0x42]]"
    by (simp add: parts_endash)
  have r5: "getPrimaryWords (js '' Hello  brave world'') None = [js ''Hello'', js ''brave'']"
    using getPrimaryWords_cases [of None "js '' Hello  brave world''"] none words_hello by blast
  show ?thesis
    by (intro conjI parse_single r1 parse_many r2 none w0 r3 words_endash r4 words_hello r5)
qed


end
